theory Spec2Isabelle
  imports Main "HOL-Library.Word"
begin

section \<open>Subscription service: month dates, cost aggregation, CRUD paths\<close>

text \<open>
  The development embeds the Go package \<open>service\<close> (the subscription service), the
  package \<open>repository\<close> (its SQL repository), the DTO constructor
  \<open>MakeSubscriptionsOutput\<close> and the table declaration of the migration.

  Go's \<open>int\<close> is the 64-bit signed machine integer of the build target
  (\<open>GOOS=linux\<close>, 64-bit): a \<open>64 word\<close>, read with \<open>sint\<close>; \<open>+\<close>, \<open>-\<close> and \<open>*\<close> wrap
  as Go's do. Go strings are byte strings: \<open>string\<close>.
\<close>

subsection \<open>Machine integers and errors\<close>

type_synonym go_int = "64 word"

text \<open>
  A \<open>time.Time\<close> is modelled by what the service reads of it, in UTC: the year and the
  month as \<open>Year()\<close> and \<open>Month()\<close> return them, the day of the month, the nanoseconds
  since midnight, and its place in the order that \<open>Before\<close> and \<open>After\<close> compare. All
  instants of one run are read in the same location (the service builds its dates in
  \<open>time.UTC\<close>, the driver returns \<open>DATE\<close> columns in UTC, and the image the service runs
  in has no zone database, so \<open>time.Now()\<close> is UTC too).

  Go orders instants by a signed 64-bit count of seconds since year 1 and reads the
  calendar off the same count taken as unsigned from the year -292277022399. So the
  instants of the last years the calendar can show (past about 292277024626) have a
  negative count and come before all the others: \<open>Late\<close> marks them. Among the late
  ones, and among the others, the order is the order of the calendar.
\<close>

record Time =
  Year :: go_int
  Month :: go_int
  Day :: nat
  Clock :: nat
  Late :: bool

text \<open>
  Errors are values. The three sentinels of package \<open>domain\<close>, \<open>sql.ErrNoRows\<close>,
  the two causes of a \<open>strconv.NumError\<close>, an opaque error of a library (the UUID parser,
  the database driver), the message-only error of the ordering check, and
  \<open>fmt.Errorf\<close> with a \<open>%w\<close> verb: its format, the wrapped error and the other
  arguments.
\<close>

datatype error =
    ErrNotFound
  | ErrInvalidDate
  | ErrInvalidDateFormat
  | ErrNoRows
  | ErrSyntax
  | ErrRange
  | ErrOther string
  | ErrEndBeforeStart Time Time
  | Errorf string error "string list"

text \<open>\<open>errors.Is\<close>: the error itself or one it wraps is the target.\<close>

fun errors_Is :: "error \<Rightarrow> error \<Rightarrow> bool" where
  "errors_Is (Errorf f e args) target = (Errorf f e args = target \<or> errors_Is e target)"
| "errors_Is e target = (e = target)"

subsection \<open>Library functions the date codec calls\<close>

definition is_digit :: "char \<Rightarrow> bool" where
  "is_digit c = (48 \<le> (of_char c :: nat) \<and> (of_char c :: nat) \<le> 57)"

definition digit_val :: "char \<Rightarrow> nat" where
  "digit_val c = (of_char c :: nat) - 48"

definition digit_char :: "nat \<Rightarrow> char" where
  "digit_char k = char_of (48 + k)"

text \<open>
  \<open>strings.Split(s, "-")\<close> for a one-byte separator: the pieces between the
  separators, in order; a string with no separator (the empty one too) is one piece.
\<close>

fun strings_Split :: "string \<Rightarrow> char \<Rightarrow> string list" where
  "strings_Split [] sep = [[]]"
| "strings_Split (c # cs) sep =
     (if c = sep then [] # strings_Split cs sep
      else (case strings_Split cs sep of
              p # ps \<Rightarrow> (c # p) # ps
            | [] \<Rightarrow> [[c]]))"

text \<open>The accumulation \<open>n = n*10 + int(ch - '0')\<close> over the bytes of a digit string.\<close>

fun digits_value :: "nat \<Rightarrow> string \<Rightarrow> nat" where
  "digits_value n [] = n"
| "digits_value n (c # cs) = digits_value (n * 10 + digit_val c) cs"

text \<open>
  \<open>strconv.Atoi\<close>: an optional sign, then one or more decimal digits and nothing else
  (\<open>ErrSyntax\<close> otherwise); a value outside the 64-bit signed range is \<open>ErrRange\<close>.
\<close>

definition Atoi :: "string \<Rightarrow> error + go_int" where
  "Atoi s =
     (let neg = (case s of c # _ \<Rightarrow> c = CHR ''-'' | [] \<Rightarrow> False);
          body = (case s of c # r \<Rightarrow> if c = CHR ''-'' \<or> c = CHR ''+'' then r else s | [] \<Rightarrow> s)
      in if body = [] \<or> \<not> list_all is_digit body then Inl ErrSyntax
         else let v = digits_value 0 body
              in if neg then (if int v > 2 ^ 63 then Inl ErrRange else Inr (- of_nat v))
                 else (if int v \<ge> 2 ^ 63 then Inl ErrRange else Inr (of_nat v)))"

text \<open>The decimal digits of a natural number, most significant first.\<close>

fun dec :: "nat \<Rightarrow> string" where
  "dec n = (if n < 10 then [digit_char n] else dec (n div 10) @ [digit_char (n mod 10)])"

declare dec.simps [simp del]

text \<open>The verb \<open>%d\<close> of package \<open>fmt\<close> on an \<open>int\<close>.\<close>

definition fmt_d :: "go_int \<Rightarrow> string" where
  "fmt_d w = (if sint w < 0 then CHR ''-'' # dec (nat (- sint w)) else dec (nat (sint w)))"

text \<open>The verb \<open>%02d\<close>: as \<open>%d\<close>, filled with zeros after the sign up to two bytes.\<close>

definition fmt_02d :: "go_int \<Rightarrow> string" where
  "fmt_02d w = (let s = fmt_d w in if length s < 2 then CHR ''0'' # s else s)"

subsection \<open>Instants\<close>

definition Before :: "Time \<Rightarrow> Time \<Rightarrow> bool" where
  "Before t u =
     ((Late t \<and> \<not> Late u) \<or>
      (Late t = Late u \<and>
       (sint (Year t) < sint (Year u) \<or>
        (Year t = Year u \<and>
         (sint (Month t) < sint (Month u) \<or>
          (Month t = Month u \<and>
           (Day t < Day u \<or> (Day t = Day u \<and> Clock t < Clock u))))))))"

definition After :: "Time \<Rightarrow> Time \<Rightarrow> bool" where
  "After t u = Before u t"

text \<open>A \<open>uuid.UUID\<close> is sixteen bytes.\<close>

type_synonym UUID = "128 word"

text \<open>
  Library functions are parameters where the service only passes their results on, or
  where their result is fixed by arithmetic this development does not repeat:
  \<open>uuid.Parse\<close>, \<open>UUID.String\<close>, \<open>Time.Format(time.DateTime)\<close>, and \<open>Date_wrapped\<close>, what
  \<open>time.Date(year, month, 1, 0, 0, 0, 0, time.UTC)\<close> returns when it has to normalise the
  month or when the year is so far from year 1 that the count of seconds may wrap around.
\<close>

record lib =
  uuid_Parse :: "string \<Rightarrow> error + UUID"
  uuid_String :: "UUID \<Rightarrow> string"
  Format_DateTime :: "Time \<Rightarrow> string"
  Date_wrapped :: "go_int \<Rightarrow> go_int \<Rightarrow> Time"

text \<open>
  Years for which \<open>time.Date\<close> is exact: the seconds from year 1 to any day of such a
  year stay well inside 63 bits (the count wraps past about 292277024626 years).
\<close>

definition representable_year :: "go_int \<Rightarrow> bool" where
  "representable_year y = (- 290000000000 \<le> sint y \<and> sint y \<le> 290000000000)"

text \<open>
  \<open>time.Date(year, month, 1, 0, 0, 0, 0, time.UTC)\<close>, the only shape of the call in the
  service: the first day of that month at midnight when the month is in 1..12 and the
  year is representable, and what the library makes of the arguments otherwise.
\<close>

definition time_Date :: "lib \<Rightarrow> go_int \<Rightarrow> go_int \<Rightarrow> Time" where
  "time_Date l y m =
     (if representable_year y \<and> 1 \<le> sint m \<and> sint m \<le> 12
      then \<lparr>Year = y, Month = m, Day = 1, Clock = 0, Late = False\<rparr>
      else Date_wrapped l y m)"

subsection \<open>The month-date codec\<close>

definition parseDate :: "lib \<Rightarrow> string \<Rightarrow> error + Time" where
  "parseDate l dateStr =
     (let parts = strings_Split dateStr (CHR ''-'')
      in if length parts \<noteq> 2 then Inl (Errorf ''%w: %v'' ErrInvalidDateFormat [dateStr])
         else (case Atoi (parts ! 0) of
                 Inl _ \<Rightarrow> Inl (Errorf ''%w: %v'' ErrInvalidDate [dateStr])
               | Inr month \<Rightarrow>
                   (case Atoi (parts ! 1) of
                      Inl _ \<Rightarrow> Inl (Errorf ''%w: %v'' ErrInvalidDate [dateStr])
                    | Inr year \<Rightarrow>
                        if sint month < 1 \<or> sint month > 12
                        then Inl (Errorf ''%w: %v'' ErrInvalidDate [dateStr])
                        else Inr (time_Date l year month))))"

definition parseTimeToString :: "Time \<Rightarrow> string" where
  "parseTimeToString t = fmt_02d (Month t) @ ''-'' @ fmt_d (Year t)"

subsection \<open>Entities of package \<open>domain\<close> and the DTOs\<close>

record Subscription =
  ID :: UUID
  ServiceName :: string
  Price :: go_int
  UserID :: UUID
  StartDate :: Time
  EndDate :: "Time option"
  CreatedAt :: Time
  UpdatedAt :: Time

text \<open>
  The other structs share field names with \<open>Subscription\<close>; their fields carry a prefix:
  \<open>U_\<close> for \<open>domain.UpdateSubscription\<close>, \<open>F_\<close> for \<open>domain.SubscriptionFilter\<close>,
  \<open>C_\<close> for \<open>domain.CostRequest\<close>, and for package \<open>dto\<close>: \<open>O_\<close>
  (\<open>SubscriptionOutput\<close>), \<open>CR_\<close> (\<open>CreateSubscriptionRequest\<close>), \<open>UR_\<close>
  (\<open>UpdateSubscriptionRequest\<close>), \<open>SF_\<close> (\<open>SubscriptionFilter\<close>), \<open>CQ_\<close>
  (\<open>CostRequest\<close>), \<open>SO_\<close> (\<open>SubscriptionsOutput\<close>). A nil pointer is \<open>None\<close>.
\<close>

record UpdateSubscription =
  U_ServiceName :: "string option"
  U_Price :: "go_int option"
  U_StartDate :: "Time option"
  U_EndDate :: "Time option"

record SubscriptionFilter =
  F_UserID :: "UUID option"
  F_ServiceName :: "string option"
  F_Limit :: go_int
  F_Offset :: go_int

record CostRequest =
  C_UserID :: "UUID option"
  C_ServiceName :: "string option"

record SubscriptionOutput =
  O_ID :: string
  O_ServiceName :: string
  O_Price :: go_int
  O_UserID :: string
  O_StartDate :: string
  O_EndDate :: "string option"
  O_CreatedAt :: string
  O_UpdatedAt :: string

record CreateSubscriptionRequest =
  CR_ServiceName :: string
  CR_Price :: go_int
  CR_UserID :: string
  CR_StartDate :: string
  CR_EndDate :: "string option"

record UpdateSubscriptionRequest =
  UR_ServiceName :: "string option"
  UR_Price :: "go_int option"
  UR_StartDate :: "string option"
  UR_EndDate :: "string option"

record dto_SubscriptionFilter =
  SF_UserID :: "string option"
  SF_ServiceName :: "string option"
  SF_Page :: go_int
  SF_PageSize :: go_int

record dto_CostRequest =
  CQ_UserID :: "string option"
  CQ_ServiceName :: "string option"
  CQ_From :: "string option"
  CQ_To :: "string option"

record SubscriptionsOutput =
  SO_Total :: go_int
  SO_Page :: go_int
  SO_PageSize :: go_int
  SO_HasNextPage :: bool
  SO_HasPrevPage :: bool
  SO_Subscriptions :: "SubscriptionOutput list"

definition MakeSubscriptionsOutput ::
  "SubscriptionOutput list \<Rightarrow> go_int \<Rightarrow> go_int \<Rightarrow> go_int \<Rightarrow> SubscriptionsOutput" where
  "MakeSubscriptionsOutput subscriptions tot page pageSize =
     \<lparr>SO_Total = tot,
      SO_Page = page,
      SO_PageSize = pageSize,
      SO_HasNextPage = (sint tot > sint (page * pageSize)),
      SO_HasPrevPage = (sint page > 1),
      SO_Subscriptions = subscriptions\<rparr>"

subsection \<open>The repository interface and the service\<close>

text \<open>
  \<open>SubscriptionRepositoryI\<close>: the service sees the repository through this interface
  only. A method takes the state of the storage behind it and returns it with its
  result; \<open>DeleteSubscription\<close> returns its \<open>error\<close>, \<open>None\<close> for nil.
\<close>

record 'db SubscriptionRepositoryI =
  I_CreateSubscription :: "Subscription \<Rightarrow> 'db \<Rightarrow> (error + Subscription) \<times> 'db"
  I_SubscriptionByID :: "UUID \<Rightarrow> 'db \<Rightarrow> (error + Subscription) \<times> 'db"
  I_Subscriptions ::
    "SubscriptionFilter \<Rightarrow> 'db \<Rightarrow> (error + Subscription list \<times> go_int) \<times> 'db"
  I_SubscriptionsCost :: "CostRequest \<Rightarrow> 'db \<Rightarrow> (error + Subscription list) \<times> 'db"
  I_UpdateSubscription ::
    "UUID \<Rightarrow> UpdateSubscription \<Rightarrow> 'db \<Rightarrow> (error + Subscription) \<times> 'db"
  I_DeleteSubscription :: "UUID \<Rightarrow> 'db \<Rightarrow> error option \<times> 'db"

definition subscriptionToDto :: "lib \<Rightarrow> Subscription \<Rightarrow> SubscriptionOutput" where
  "subscriptionToDto l s =
     \<lparr>O_ID = uuid_String l (ID s),
      O_ServiceName = ServiceName s,
      O_Price = Price s,
      O_UserID = uuid_String l (UserID s),
      O_StartDate = parseTimeToString (StartDate s),
      O_EndDate = (case EndDate s of None \<Rightarrow> None | Some ed \<Rightarrow> Some (parseTimeToString ed)),
      O_CreatedAt = Format_DateTime l (CreatedAt s),
      O_UpdatedAt = Format_DateTime l (UpdatedAt s)\<rparr>"

definition maxTime :: "Time \<Rightarrow> Time \<Rightarrow> Time" where
  "maxTime a b = (if After a b then a else b)"

definition minTime :: "Time \<Rightarrow> Time \<Rightarrow> Time" where
  "minTime a b = (if Before a b then a else b)"

definition monthsBetween :: "lib \<Rightarrow> Time \<Rightarrow> Time \<Rightarrow> go_int" where
  "monthsBetween l start endt =
     (let start' = time_Date l (Year start) (Month start);
          end' = time_Date l (Year endt) (Month endt)
      in if Before end' start' then 0
         else (Year end' - Year start') * 12 + (Month end' - Month start'))"

text \<open>The zero value \<open>time.Time{}\<close>: 1 January of year 1, 00:00:00 UTC.\<close>

definition zero_Time :: Time where
  "zero_Time = \<lparr>Year = 1, Month = 1, Day = 1, Clock = 0, Late = False\<rparr>"

text \<open>
  \<open>CreateSubscription\<close>. The identifier \<open>uuid.New()\<close> draws is the argument \<open>sid\<close>.
  The ordering check returns an error made of its message and the two dates alone.
\<close>

definition Service_CreateSubscription ::
  "lib \<Rightarrow> 'db SubscriptionRepositoryI \<Rightarrow> UUID \<Rightarrow> CreateSubscriptionRequest \<Rightarrow> 'db \<Rightarrow>
   (error + SubscriptionOutput) \<times> 'db" where
  "Service_CreateSubscription l repo sid req db =
     (case parseDate l (CR_StartDate req) of
        Inl err \<Rightarrow> (Inl (Errorf ''%w: %s'' err [CR_StartDate req]), db)
      | Inr startDate \<Rightarrow>
          (case (case CR_EndDate req of
                   None \<Rightarrow> Inr None
                 | Some e \<Rightarrow>
                     (case parseDate l e of
                        Inl err \<Rightarrow> Inl (Errorf ''%w: %s'' err [e])
                      | Inr ed \<Rightarrow>
                          if Before ed startDate then Inl (ErrEndBeforeStart ed startDate)
                          else Inr (Some ed))) of
             Inl err \<Rightarrow> (Inl err, db)
           | Inr endDate \<Rightarrow>
               (case uuid_Parse l (CR_UserID req) of
                  Inl err \<Rightarrow> (Inl (Errorf ''invalid user_id: %w'' err []), db)
                | Inr userID \<Rightarrow>
                    (case I_CreateSubscription repo
                            \<lparr>ID = sid,
                             ServiceName = CR_ServiceName req,
                             Price = CR_Price req,
                             UserID = userID,
                             StartDate = startDate,
                             EndDate = endDate,
                             CreatedAt = zero_Time,
                             UpdatedAt = zero_Time\<rparr> db of
                       (Inl err, db') \<Rightarrow>
                         (Inl (Errorf ''failed to create subscription: %w'' err []), db')
                     | (Inr subscriptionDB, db') \<Rightarrow>
                         (Inr (subscriptionToDto l subscriptionDB), db')))))"

definition Service_Subscriptions ::
  "lib \<Rightarrow> 'db SubscriptionRepositoryI \<Rightarrow> dto_SubscriptionFilter \<Rightarrow> 'db \<Rightarrow>
   (error + SubscriptionsOutput) \<times> 'db" where
  "Service_Subscriptions l repo fltr db =
     (case (case SF_UserID fltr of
              None \<Rightarrow> Inr None
            | Some u \<Rightarrow>
                (case uuid_Parse l u of
                   Inl err \<Rightarrow> Inl (Errorf ''invalid user_id in filter: %w'' err [])
                 | Inr uid \<Rightarrow> Inr (Some uid))) of
        Inl err \<Rightarrow> (Inl err, db)
      | Inr userID \<Rightarrow>
          (case I_Subscriptions repo
                  \<lparr>F_UserID = userID,
                   F_ServiceName = SF_ServiceName fltr,
                   F_Limit = SF_PageSize fltr,
                   F_Offset = (SF_Page fltr - 1) * SF_PageSize fltr\<rparr> db of
             (Inl err, db') \<Rightarrow> (Inl (Errorf ''failed to fetch subscriptions: %w'' err []), db')
           | (Inr (subscriptionsDB, tot), db') \<Rightarrow>
               (Inr (MakeSubscriptionsOutput (map (subscriptionToDto l) subscriptionsDB) tot
                       (SF_Page fltr) (SF_PageSize fltr)), db')))"

text \<open>
  The body of the loop of \<open>SubscriptionsCost\<close>, with the local variables of the
  source as functions of what they depend on; \<open>now\<close> is the value of \<open>time.Now()\<close>.
\<close>

definition actualEnd :: "Time \<Rightarrow> Subscription \<Rightarrow> Time" where
  "actualEnd now sub = (case EndDate sub of None \<Rightarrow> now | Some e \<Rightarrow> e)"

definition calcStart :: "Time option \<Rightarrow> Subscription \<Rightarrow> Time" where
  "calcStart startDate sub =
     (case startDate of None \<Rightarrow> StartDate sub | Some sd \<Rightarrow> maxTime (StartDate sub) sd)"

definition calcEnd :: "Time \<Rightarrow> Time option \<Rightarrow> Subscription \<Rightarrow> Time" where
  "calcEnd now endDate sub =
     (case endDate of None \<Rightarrow> actualEnd now sub | Some ed \<Rightarrow> minTime (actualEnd now sub) ed)"

definition cost_step ::
  "lib \<Rightarrow> Time \<Rightarrow> Time option \<Rightarrow> Time option \<Rightarrow> go_int \<Rightarrow> Subscription \<Rightarrow> go_int" where
  "cost_step l now startDate endDate tot sub =
     (if Before (calcEnd now endDate sub) (calcStart startDate sub) then tot
      else tot + Price sub * monthsBetween l (calcStart startDate sub) (calcEnd now endDate sub))"

definition cost_loop ::
  "lib \<Rightarrow> Time \<Rightarrow> Time option \<Rightarrow> Time option \<Rightarrow> Subscription list \<Rightarrow> go_int" where
  "cost_loop l now startDate endDate subs = foldl (cost_step l now startDate endDate) 0 subs"

definition Service_SubscriptionsCost ::
  "lib \<Rightarrow> 'db SubscriptionRepositoryI \<Rightarrow> Time \<Rightarrow> dto_CostRequest \<Rightarrow> 'db \<Rightarrow>
   (error + go_int) \<times> 'db" where
  "Service_SubscriptionsCost l repo now fltr db =
     (case (case CQ_UserID fltr of
              None \<Rightarrow> Inr None
            | Some u \<Rightarrow>
                (case uuid_Parse l u of
                   Inl err \<Rightarrow> Inl (Errorf ''invalid user_id in filter: %w'' err [])
                 | Inr uid \<Rightarrow> Inr (Some uid))) of
        Inl err \<Rightarrow> (Inl err, db)
      | Inr userID \<Rightarrow>
          (case (case CQ_From fltr of
                   None \<Rightarrow> Inr None
                 | Some f \<Rightarrow>
                     (case parseDate l f of
                        Inl err \<Rightarrow> Inl (Errorf ''invalid start_date: %w'' err [])
                      | Inr sd \<Rightarrow> Inr (Some sd))) of
             Inl err \<Rightarrow> (Inl err, db)
           | Inr startDate \<Rightarrow>
               (case (case CQ_To fltr of
                        None \<Rightarrow> Inr None
                      | Some t \<Rightarrow>
                          (case parseDate l t of
                             Inl err \<Rightarrow> Inl (Errorf ''invalid end_date: %w'' err [])
                           | Inr ed \<Rightarrow> Inr (Some ed))) of
                  Inl err \<Rightarrow> (Inl err, db)
                | Inr endDate \<Rightarrow>
                    (case I_SubscriptionsCost repo
                            \<lparr>C_UserID = userID, C_ServiceName = CQ_ServiceName fltr\<rparr> db of
                       (Inl err, db') \<Rightarrow>
                         (Inl (Errorf ''error getting subscriptions cost: %w'' err []), db')
                     | (Inr subs, db') \<Rightarrow>
                         (Inr (cost_loop l now startDate endDate subs), db')))))"

definition Service_UpdateSubscription ::
  "lib \<Rightarrow> 'db SubscriptionRepositoryI \<Rightarrow> UUID \<Rightarrow> UpdateSubscriptionRequest \<Rightarrow> 'db \<Rightarrow>
   (error + SubscriptionOutput) \<times> 'db" where
  "Service_UpdateSubscription l repo sid req db =
     (case (case UR_StartDate req of
              None \<Rightarrow> Inr None
            | Some s \<Rightarrow>
                (case parseDate l s of
                   Inl err \<Rightarrow> Inl (Errorf ''%w: %s'' err [s])
                 | Inr sd \<Rightarrow> Inr (Some sd))) of
        Inl err \<Rightarrow> (Inl err, db)
      | Inr startDate \<Rightarrow>
          (case (case UR_EndDate req of
                   None \<Rightarrow> Inr None
                 | Some e \<Rightarrow>
                     (case parseDate l e of
                        Inl err \<Rightarrow> Inl (Errorf ''%w: %s'' err [e])
                      | Inr ed \<Rightarrow> Inr (Some ed))) of
             Inl err \<Rightarrow> (Inl err, db)
           | Inr endDate \<Rightarrow>
               (case (case (startDate, endDate) of
                        (Some sd, Some ed) \<Rightarrow>
                          if Before ed sd then Some (ErrEndBeforeStart ed sd) else None
                      | _ \<Rightarrow> None) of
                  Some err \<Rightarrow> (Inl err, db)
                | None \<Rightarrow>
                    (case I_UpdateSubscription repo sid
                            \<lparr>U_ServiceName = UR_ServiceName req, U_Price = UR_Price req,
                             U_StartDate = startDate, U_EndDate = endDate\<rparr> db of
                       (Inl err, db') \<Rightarrow>
                         if errors_Is err ErrNotFound
                         then (Inl (Errorf ''subscription not found: %w'' ErrNotFound []), db')
                         else (Inl (Errorf ''failed to update subscription: %w'' err []), db')
                     | (Inr subscriptionDB, db') \<Rightarrow>
                         (Inr (subscriptionToDto l subscriptionDB), db')))))"

definition Service_DeleteSubscription ::
  "'db SubscriptionRepositoryI \<Rightarrow> UUID \<Rightarrow> 'db \<Rightarrow> error option \<times> 'db" where
  "Service_DeleteSubscription repo sid db =
     (case I_DeleteSubscription repo sid db of
        (Some err, db') \<Rightarrow>
          if errors_Is err ErrNotFound
          then (Some (Errorf ''subscription not found: %w'' ErrNotFound []), db')
          else (Some (Errorf ''failed to delete subscription: %w'' err []), db')
      | (None, db') \<Rightarrow> (None, db'))"

text \<open>
  \<open>listSubscriptions\<close> of the handler, once the query is bound: it clamps the page and the
  page size and calls the service, whose output is the body of the response.
\<close>

definition listSubscriptions ::
  "lib \<Rightarrow> 'db SubscriptionRepositoryI \<Rightarrow> dto_SubscriptionFilter \<Rightarrow> 'db \<Rightarrow>
   (error + SubscriptionsOutput) \<times> 'db" where
  "listSubscriptions l repo fltr db =
     Service_Subscriptions l repo
       (fltr\<lparr>SF_Page := (if sint (SF_Page fltr) < 1 then 1 else SF_Page fltr),
             SF_PageSize := (if sint (SF_PageSize fltr) < 1 \<or> sint (SF_PageSize fltr) > 100
                             then 10 else SF_PageSize fltr)\<rparr>) db"

subsection \<open>The SQL repository\<close>

text \<open>
  The table \<open>subscriptions\<close> is the list of its rows. A statement of the repository
  either fails in the driver (the argument \<open>fault\<close> is the driver's error then, \<open>None\<close>
  when the statement runs) or runs on the table as its SQL text says. A query with no
  \<open>ORDER BY\<close> returns the rows in the order of the list.
\<close>

type_synonym table = "Subscription list"

text \<open>A value bound to a \<open>DATE\<close> column loses its time of day.\<close>

definition to_DATE :: "Time \<Rightarrow> Time" where
  "to_DATE t = t\<lparr>Clock := 0\<rparr>"

text \<open>
  The constraints of the migration on a row: \<open>price INTEGER\<close> (32 bits) with
  \<open>CHECK (price > 0)\<close>, and \<open>CHECK (end_date IS NULL OR end_date >= start_date)\<close>.
\<close>

definition table_checks :: "Subscription \<Rightarrow> bool" where
  "table_checks r =
     (0 < sint (Price r) \<and> sint (Price r) \<le> 2147483647 \<and>
      (case EndDate r of None \<Rightarrow> True | Some e \<Rightarrow> \<not> Before e (StartDate r)))"

text \<open>The \<open>WHERE\<close> clause the two listing methods build from the filters that are set.\<close>

definition whereClause :: "UUID option \<Rightarrow> string option \<Rightarrow> Subscription \<Rightarrow> bool" where
  "whereClause uid name r =
     ((case uid of None \<Rightarrow> True | Some u \<Rightarrow> UserID r = u) \<and>
      (case name of None \<Rightarrow> True | Some n \<Rightarrow> ServiceName r = n))"

text \<open>
  \<open>INSERT ... RETURNING\<close>: the primary key and the checks hold or the driver reports
  the violation; \<open>created_at\<close> and \<open>updated_at\<close> take their default \<open>NOW()\<close>, here \<open>stamp\<close>.
\<close>

definition Repository_CreateSubscription ::
  "error option \<Rightarrow> Time \<Rightarrow> Subscription \<Rightarrow> table \<Rightarrow> (error + Subscription) \<times> table" where
  "Repository_CreateSubscription fault stamp sub db =
     (case fault of
        Some err \<Rightarrow> (Inl (Errorf ''failed to create subscription: %w'' err []), db)
      | None \<Rightarrow>
          (let row = sub\<lparr>StartDate := to_DATE (StartDate sub),
                         EndDate := (case EndDate sub of None \<Rightarrow> None | Some e \<Rightarrow> Some (to_DATE e)),
                         CreatedAt := stamp,
                         UpdatedAt := stamp\<rparr>
           in if find (\<lambda>r. ID r = ID sub) db \<noteq> None \<or> \<not> table_checks row
              then (Inl (Errorf ''failed to create subscription: %w''
                           (ErrOther ''pq: constraint violation'') []), db)
              else (Inr row, db @ [row])))"

definition Repository_SubscriptionByID ::
  "error option \<Rightarrow> UUID \<Rightarrow> table \<Rightarrow> (error + Subscription) \<times> table" where
  "Repository_SubscriptionByID fault sid db =
     (case (case fault of
              Some err \<Rightarrow> Inl err
            | None \<Rightarrow> (case find (\<lambda>r. ID r = sid) db of None \<Rightarrow> Inl ErrNoRows | Some r \<Rightarrow> Inr r)) of
        Inl err \<Rightarrow>
          if errors_Is err ErrNoRows then (Inl ErrNotFound, db)
          else (Inl (Errorf ''failed to get subscription: %w'' err []), db)
      | Inr sub \<Rightarrow> (Inr sub, db))"

text \<open>
  \<open>Subscriptions\<close> runs two statements, the count and the page; \<open>LIMIT\<close> and \<open>OFFSET\<close>
  must not be negative.
\<close>

definition Repository_Subscriptions ::
  "error option \<Rightarrow> error option \<Rightarrow> SubscriptionFilter \<Rightarrow> table \<Rightarrow>
   (error + Subscription list \<times> go_int) \<times> table" where
  "Repository_Subscriptions fault fault2 fltr db =
     (let matching = filter (whereClause (F_UserID fltr) (F_ServiceName fltr)) db
      in case fault of
           Some err \<Rightarrow>
             (Inl (Errorf ''failed to get total count of subscriptions: %w'' err []), db)
         | None \<Rightarrow>
             (let tot = (of_nat (length matching) :: go_int)
              in if tot = 0 then (Inr ([], 0), db)
                 else (case (case fault2 of
                               Some err \<Rightarrow> Some err
                             | None \<Rightarrow>
                                 if sint (F_Limit fltr) < 0 \<or> sint (F_Offset fltr) < 0
                                 then Some (ErrOther ''pq: LIMIT or OFFSET must not be negative'')
                                 else None) of
                         Some err \<Rightarrow> (Inl (Errorf ''failed to get subscriptions: %w'' err []), db)
                       | None \<Rightarrow>
                           (Inr (take (nat (sint (F_Limit fltr)))
                                   (drop (nat (sint (F_Offset fltr))) matching), tot), db))))"

definition Repository_SubscriptionsCost ::
  "error option \<Rightarrow> CostRequest \<Rightarrow> table \<Rightarrow> (error + Subscription list) \<times> table" where
  "Repository_SubscriptionsCost fault fltr db =
     (case fault of
        Some err \<Rightarrow> if err = ErrNoRows then (Inl ErrNotFound, db) else (Inl err, db)
      | None \<Rightarrow> (Inr (filter (whereClause (C_UserID fltr) (C_ServiceName fltr)) db), db))"

text \<open>The list \<open>set\<close> of the columns an update assigns, before \<open>updated_at\<close> joins it.\<close>

definition update_set :: "UpdateSubscription \<Rightarrow> string list" where
  "update_set sub =
     (case U_ServiceName sub of None \<Rightarrow> [] | Some _ \<Rightarrow> [''service_name'']) @
     (case U_Price sub of None \<Rightarrow> [] | Some _ \<Rightarrow> [''price'']) @
     (case U_StartDate sub of None \<Rightarrow> [] | Some _ \<Rightarrow> [''start_date'']) @
     (case U_EndDate sub of None \<Rightarrow> [] | Some _ \<Rightarrow> [''end_date''])"

text \<open>The row an \<open>UPDATE ... SET\<close> of the supplied columns and of \<open>updated_at\<close> leaves.\<close>

definition updated_row :: "Time \<Rightarrow> UpdateSubscription \<Rightarrow> Subscription \<Rightarrow> Subscription" where
  "updated_row stamp sub r =
     r\<lparr>ServiceName := (case U_ServiceName sub of None \<Rightarrow> ServiceName r | Some n \<Rightarrow> n),
       Price := (case U_Price sub of None \<Rightarrow> Price r | Some p \<Rightarrow> p),
       StartDate := (case U_StartDate sub of None \<Rightarrow> StartDate r | Some d \<Rightarrow> to_DATE d),
       EndDate := (case U_EndDate sub of None \<Rightarrow> EndDate r | Some d \<Rightarrow> Some (to_DATE d)),
       UpdatedAt := stamp\<rparr>"

text \<open>\<open>UpdateSubscription\<close>; \<open>stamp\<close> is the value of \<open>time.Now()\<close> the statement binds.\<close>

definition Repository_UpdateSubscription ::
  "error option \<Rightarrow> Time \<Rightarrow> UUID \<Rightarrow> UpdateSubscription \<Rightarrow> table \<Rightarrow>
   (error + Subscription) \<times> table" where
  "Repository_UpdateSubscription fault stamp sid sub db =
     (if length (update_set sub) = 0 then Repository_SubscriptionByID fault sid db
      else (case fault of
              Some err \<Rightarrow> if err = ErrNoRows then (Inl ErrNotFound, db) else (Inl err, db)
            | None \<Rightarrow>
                (case find (\<lambda>r. ID r = sid) db of
                   None \<Rightarrow> (Inl ErrNotFound, db)
                 | Some r \<Rightarrow>
                     if \<not> table_checks (updated_row stamp sub r)
                     then (Inl (ErrOther ''pq: check constraint violation''), db)
                     else (Inr (updated_row stamp sub r),
                           map (\<lambda>x. if ID x = sid then updated_row stamp sub x else x) db))))"

text \<open>\<open>DeleteSubscription\<close>: \<open>rowsAffected\<close> is the number of rows the statement removed.\<close>

definition Repository_DeleteSubscription ::
  "error option \<Rightarrow> UUID \<Rightarrow> table \<Rightarrow> error option \<times> table" where
  "Repository_DeleteSubscription fault sid db =
     (case fault of
        Some err \<Rightarrow> (Some (Errorf ''failed to delete subscription: %w'' err []), db)
      | None \<Rightarrow>
          (let rowsAffected = length (filter (\<lambda>r. ID r = sid) db);
               db' = filter (\<lambda>r. ID r \<noteq> sid) db
           in if rowsAffected = 0 then (Some ErrNotFound, db') else (None, db')))"

text \<open>The repository as the service holds it.\<close>

definition SubscriptionRepository ::
  "error option \<Rightarrow> error option \<Rightarrow> Time \<Rightarrow> table SubscriptionRepositoryI" where
  "SubscriptionRepository fault fault2 stamp =
     \<lparr>I_CreateSubscription = Repository_CreateSubscription fault stamp,
      I_SubscriptionByID = Repository_SubscriptionByID fault,
      I_Subscriptions = Repository_Subscriptions fault fault2,
      I_SubscriptionsCost = Repository_SubscriptionsCost fault,
      I_UpdateSubscription = Repository_UpdateSubscription fault stamp,
      I_DeleteSubscription = Repository_DeleteSubscription fault\<rparr>"

subsection \<open>The properties in the words of the specification\<close>

text \<open>
  A string of the exact form \<open>MM-YYYY\<close>: seven bytes, two digits with a value in
  1..12, the separator, four digits.
\<close>

definition valid_MM_YYYY :: "string \<Rightarrow> bool" where
  "valid_MM_YYYY s =
     (length s = 7 \<and> is_digit (s ! 0) \<and> is_digit (s ! 1) \<and> s ! 2 = CHR ''-'' \<and>
      is_digit (s ! 3) \<and> is_digit (s ! 4) \<and> is_digit (s ! 5) \<and> is_digit (s ! 6) \<and>
      1 \<le> 10 * digit_val (s ! 0) + digit_val (s ! 1) \<and>
      10 * digit_val (s ! 0) + digit_val (s ! 1) \<le> 12)"

text \<open>
  The two segments of a string with one separator, and what makes a segment numeric for
  the parser: digits, after an optional \<open>+\<close>, with a value that fits an \<open>int\<close>.
\<close>

definition month_segment :: "string \<Rightarrow> string" where
  "month_segment s = takeWhile (\<lambda>c. c \<noteq> CHR ''-'') s"

definition year_segment :: "string \<Rightarrow> string" where
  "year_segment s = tl (dropWhile (\<lambda>c. c \<noteq> CHR ''-'') s)"

definition strip_plus :: "string \<Rightarrow> string" where
  "strip_plus seg = (case seg of c # r \<Rightarrow> if c = CHR ''+'' then r else seg | [] \<Rightarrow> [])"

definition numeric_segment :: "string \<Rightarrow> bool" where
  "numeric_segment seg =
     (strip_plus seg \<noteq> [] \<and> list_all is_digit (strip_plus seg) \<and>
      int (digits_value 0 (strip_plus seg)) < 2 ^ 63)"

definition segment_value :: "string \<Rightarrow> go_int" where
  "segment_value seg = of_nat (digits_value 0 (strip_plus seg))"

definition accepted_date :: "string \<Rightarrow> bool" where
  "accepted_date s =
     (count_list s (CHR ''-'') = 1 \<and>
      numeric_segment (month_segment s) \<and> numeric_segment (year_segment s) \<and>
      1 \<le> sint (segment_value (month_segment s)) \<and>
      sint (segment_value (month_segment s)) \<le> 12)"

text \<open>The date normalized to day 1, 00:00:00 UTC of a month of a year.\<close>

definition first_of_month :: "go_int \<Rightarrow> go_int \<Rightarrow> Time" where
  "first_of_month y m = \<lparr>Year = y, Month = m, Day = 1, Clock = 0, Late = False\<rparr>"

text \<open>
  An instant in a month that \<open>time.Date\<close> rebuilds exactly: not a late one, in a
  representable year, with a month in 1..12.
\<close>

definition regular :: "Time \<Rightarrow> bool" where
  "regular t =
     (\<not> Late t \<and> representable_year (Year t) \<and> 1 \<le> sint (Month t) \<and> sint (Month t) \<le> 12)"

text \<open>
  What one candidate adds to the total: nothing when its clipped interval is empty,
  otherwise its price times the months from the month of \<open>calcStart\<close> to the month of
  \<open>calcEnd\<close>, with no month added.
\<close>

definition contribution :: "Time \<Rightarrow> Time option \<Rightarrow> Time option \<Rightarrow> Subscription \<Rightarrow> go_int" where
  "contribution now startDate endDate sub =
     (let s = calcStart startDate sub; e = calcEnd now endDate sub
      in if Before e s then 0
         else Price sub * ((Year e - Year s) * 12 + (Month e - Month s)))"

subsection \<open>Concrete data for the examples\<close>

text \<open>
  What \<open>time.Date(300000000000, 7, 1, 0, 0, 0, 0, time.UTC)\<close> returns: the count of
  seconds wraps around 64 bits, to 23 August of the year -284554049254, 16:59:44.
\<close>

definition wrapped_07_300000000000 :: Time where
  "wrapped_07_300000000000 =
     \<lparr>Year = - 284554049254, Month = 8, Day = 23, Clock = 61184000000000, Late = False\<rparr>"

text \<open>
  A library whose UUID parser accepts the one identifier of the examples, and with that
  one wrapped date.
\<close>

definition lib0 :: lib where
  "lib0 =
     \<lparr>uuid_Parse = (\<lambda>s. if s = ''60601fee-2bf1-4721-ae6f-7636e79a0cba'' then Inr 1
                         else Inl (ErrOther ''invalid UUID'')),
      uuid_String = (\<lambda>u. ''60601fee-2bf1-4721-ae6f-7636e79a0cba''),
      Format_DateTime = (\<lambda>t. ''2025-10-19 10:37:56''),
      Date_wrapped = (\<lambda>y m. if y = 300000000000 \<and> m = 7 then wrapped_07_300000000000
                             else \<lparr>Year = 1, Month = 1, Day = 1, Clock = 0, Late = False\<rparr>)\<rparr>"

definition day0 :: Time where
  "day0 = \<lparr>Year = 2025, Month = 7, Day = 3, Clock = 0, Late = False\<rparr>"

text \<open>
  Three evaluation instants: 15 August 2025 at noon, 1 January 2026 and 30 October 2026.
\<close>

definition mid_august :: Time where
  "mid_august = \<lparr>Year = 2025, Month = 8, Day = 15, Clock = 43200000000000, Late = False\<rparr>"

definition new_year_2026 :: Time where
  "new_year_2026 = \<lparr>Year = 2026, Month = 1, Day = 1, Clock = 0, Late = False\<rparr>"

definition autumn_2026 :: Time where
  "autumn_2026 = \<lparr>Year = 2026, Month = 10, Day = 30, Clock = 0, Late = False\<rparr>"

text \<open>The open-ended subscription of the scenario, and one that ended in August 2025.\<close>

definition yandex :: Subscription where
  "yandex =
     \<lparr>ID = 7, ServiceName = ''Yandex Plus'', Price = 400, UserID = 1,
      StartDate = first_of_month 2025 7, EndDate = None, CreatedAt = day0, UpdatedAt = day0\<rparr>"

definition ended :: Subscription where
  "ended =
     \<lparr>ID = 8, ServiceName = ''Spotify Premium'', Price = 599, UserID = 1,
      StartDate = first_of_month 2025 7, EndDate = Some (first_of_month 2025 8),
      CreatedAt = day0, UpdatedAt = day0\<rparr>"

definition cost_07_09 :: dto_CostRequest where
  "cost_07_09 =
     \<lparr>CQ_UserID = None, CQ_ServiceName = None,
      CQ_From = Some ''07-2025'', CQ_To = Some ''09-2025''\<rparr>"

text \<open>A repository that only counts the calls of \<open>CreateSubscription\<close>.\<close>

definition counting_repo :: "nat SubscriptionRepositoryI" where
  "counting_repo =
     \<lparr>I_CreateSubscription = (\<lambda>sub n. (Inr sub, Suc n)),
      I_SubscriptionByID = (\<lambda>sid n. (Inl ErrNotFound, n)),
      I_Subscriptions = (\<lambda>fltr n. (Inr ([], 0), n)),
      I_SubscriptionsCost = (\<lambda>fltr n. (Inr [], n)),
      I_UpdateSubscription = (\<lambda>sid sub n. (Inl ErrNotFound, n)),
      I_DeleteSubscription = (\<lambda>sid n. (Some ErrNotFound, n))\<rparr>"

text \<open>Update requests with no field and with a new price; the first page of size one.\<close>

definition no_fields :: UpdateSubscriptionRequest where
  "no_fields = \<lparr>UR_ServiceName = None, UR_Price = None, UR_StartDate = None, UR_EndDate = None\<rparr>"

definition new_price :: UpdateSubscriptionRequest where
  "new_price = \<lparr>UR_ServiceName = None, UR_Price = Some 450, UR_StartDate = None, UR_EndDate = None\<rparr>"

definition first_page :: dto_SubscriptionFilter where
  "first_page = \<lparr>SF_UserID = None, SF_ServiceName = None, SF_Page = 1, SF_PageSize = 1\<rparr>"

section \<open>The month-date codec\<close>

lemma digit_char_digit_val: "is_digit c \<Longrightarrow> digit_char (digit_val c) = c"
  by (simp add: is_digit_def digit_char_def digit_val_def)

lemma digit_val_less: "is_digit c \<Longrightarrow> digit_val c < 10"
  by (auto simp add: is_digit_def digit_val_def)

lemma is_digit_not_sign: "is_digit c \<Longrightarrow> c \<noteq> CHR ''-'' \<and> c \<noteq> CHR ''+''"
  by (auto simp add: is_digit_def)

lemma digit_val_0:
  assumes "is_digit c" "digit_val c = 0"
  shows "c = CHR ''0''"
proof -
  from assms have "(of_char c :: nat) = of_char (CHR ''0'')"
    by (simp add: is_digit_def digit_val_def)
  then show ?thesis by (simp only: of_char_eq_iff)
qed

lemma dec_small: "k < 10 \<Longrightarrow> dec k = [digit_char k]"
  by (simp add: dec.simps)

lemma dec_step: "k < 10 \<Longrightarrow> 0 < n \<Longrightarrow> dec (10 * n + k) = dec n @ [digit_char k]"
  by (subst dec.simps) simp

lemma list7: "length s = 7 \<Longrightarrow> s = [s ! 0, s ! 1, s ! 2, s ! 3, s ! 4, s ! 5, s ! 6]"
  by (auto simp add: list_eq_iff_nth_eq less_Suc_eq numeral_eq_Suc)

lemma sint_small: "n < 2 ^ 63 \<Longrightarrow> sint (of_nat n :: go_int) = int n"
  by (simp add: signed_of_nat signed_take_bit_int_eq_self)

lemma time_Date_exact:
  "representable_year y \<Longrightarrow> 1 \<le> sint m \<Longrightarrow> sint m \<le> 12 \<Longrightarrow>
   time_Date l y m = first_of_month y m"
  by (simp add: time_Date_def first_of_month_def)

lemma representable_small: "n < 10000 \<Longrightarrow> representable_year (of_nat n)"
  by (simp add: representable_year_def sint_small)

lemma Atoi_digits:
  assumes "cs \<noteq> []" "list_all is_digit cs" "int (digits_value 0 cs) < 2 ^ 63"
  shows "Atoi cs = Inr (of_nat (digits_value 0 cs))"
proof -
  obtain c r where cs: "cs = c # r" using assms(1) by (cases cs) auto
  with assms(2) have "c \<noteq> CHR ''-'' \<and> c \<noteq> CHR ''+''"
    by (simp add: is_digit_not_sign)
  with cs assms show ?thesis
    by (simp add: Atoi_def Let_def)
qed

lemma Split_MM_YYYY:
  assumes "is_digit a" "is_digit b" "is_digit d" "is_digit e" "is_digit f" "is_digit g"
  shows "strings_Split [a, b, CHR ''-'', d, e, f, g] (CHR ''-'') = [[a, b], [d, e, f, g]]"
  using assms by (simp add: is_digit_not_sign)

lemma parseDate_MM_YYYY:
  assumes dig: "is_digit a" "is_digit b" "is_digit d" "is_digit e" "is_digit f" "is_digit g"
    and m: "1 \<le> 10 * digit_val a + digit_val b" "10 * digit_val a + digit_val b \<le> 12"
  shows "parseDate l [a, b, CHR ''-'', d, e, f, g] =
     Inr (first_of_month (of_nat (1000 * digit_val d + 100 * digit_val e +
                                  10 * digit_val f + digit_val g))
                         (of_nat (10 * digit_val a + digit_val b)))"
proof -
  have sp: "strings_Split [a, b, CHR ''-'', d, e, f, g] (CHR ''-'') = [[a, b], [d, e, f, g]]"
    using dig by (rule Split_MM_YYYY)
  have mv: "digits_value 0 [a, b] = 10 * digit_val a + digit_val b" by simp
  have yv: "digits_value 0 [d, e, f, g] =
      1000 * digit_val d + 100 * digit_val e + 10 * digit_val f + digit_val g" by simp
  have ylt: "1000 * digit_val d + 100 * digit_val e + 10 * digit_val f + digit_val g < 10000"
    using dig(3-6) [THEN digit_val_less] by linarith
  have am: "Atoi [a, b] = Inr (of_nat (10 * digit_val a + digit_val b))"
    using Atoi_digits [of "[a, b]"] dig m unfolding mv by simp
  have ay: "Atoi [d, e, f, g] = Inr (of_nat (1000 * digit_val d + 100 * digit_val e +
      10 * digit_val f + digit_val g))"
    using Atoi_digits [of "[d, e, f, g]"] dig ylt unfolding yv by simp
  have ms: "sint (of_nat (10 * digit_val a + digit_val b) :: go_int) =
      int (10 * digit_val a + digit_val b)"
    using m by (intro sint_small) simp
  have rng: "\<not> (int (10 * digit_val a + digit_val b) < 1 \<or>
                int (10 * digit_val a + digit_val b) > 12)"
    using m by linarith
  have te: "time_Date l (of_nat (1000 * digit_val d + 100 * digit_val e +
                                 10 * digit_val f + digit_val g))
                        (of_nat (10 * digit_val a + digit_val b)) =
      first_of_month (of_nat (1000 * digit_val d + 100 * digit_val e +
                              10 * digit_val f + digit_val g))
                     (of_nat (10 * digit_val a + digit_val b))"
  proof (rule time_Date_exact)
    show "representable_year (of_nat (1000 * digit_val d + 100 * digit_val e +
                                      10 * digit_val f + digit_val g))"
      using ylt by (rule representable_small)
    show "1 \<le> sint (of_nat (10 * digit_val a + digit_val b) :: go_int)"
      unfolding ms using m by linarith
    show "sint (of_nat (10 * digit_val a + digit_val b) :: go_int) \<le> 12"
      unfolding ms using m by linarith
  qed
  show ?thesis
    unfolding parseDate_def sp Let_def
    by (simp only: am ay ms rng te list.size nth_Cons_0 nth_Cons_Suc One_nat_def
          sum.case if_False) simp
qed

lemma fmt_d_nat: "n < 2 ^ 63 \<Longrightarrow> fmt_d (of_nat n) = dec n"
  by (simp add: fmt_d_def sint_small)

lemma dec_two:
  assumes "is_digit a" "is_digit b"
  shows "(let n = 10 * digit_val a + digit_val b
          in if length (dec n) < 2 then CHR ''0'' # dec n else dec n) = [a, b]"
proof (cases "digit_val a = 0")
  case True
  then have "a = CHR ''0''" using assms(1) by (simp add: digit_val_0)
  with True assms(2) show ?thesis
    by (simp add: dec_small digit_val_less digit_char_digit_val)
next
  case False
  then have "dec (10 * digit_val a + digit_val b) = dec (digit_val a) @ [digit_char (digit_val b)]"
    using assms(2) by (intro dec_step) (simp_all add: digit_val_less)
  with assms show ?thesis
    by (simp add: dec_small digit_val_less digit_char_digit_val)
qed

lemma dec_four:
  assumes "is_digit d" "is_digit e" "is_digit f" "is_digit g" "d \<noteq> CHR ''0''"
  shows "dec (1000 * digit_val d + 100 * digit_val e + 10 * digit_val f + digit_val g) =
    [d, e, f, g]"
proof -
  have pos: "0 < digit_val d" using assms(1,5) digit_val_0 [of d] by auto
  have eq: "1000 * digit_val d + 100 * digit_val e + 10 * digit_val f + digit_val g =
      10 * (10 * (10 * digit_val d + digit_val e) + digit_val f) + digit_val g" by simp
  have dd: "digit_val d < 10" "digit_val e < 10" "digit_val f < 10" "digit_val g < 10"
    using assms(1-4) by (simp_all add: digit_val_less)
  have s1: "dec (10 * digit_val d + digit_val e) = [d, e]"
    using dec_step [OF dd(2) pos] assms(1,2) dd(1)
    by (simp only: dec_small digit_char_digit_val append.simps)
  have s2: "dec (10 * (10 * digit_val d + digit_val e) + digit_val f) = [d, e, f]"
    using dec_step [OF dd(3), of "10 * digit_val d + digit_val e"] pos assms(3)
    by (simp only: s1 digit_char_digit_val) simp
  have s3: "dec (10 * (10 * (10 * digit_val d + digit_val e) + digit_val f) + digit_val g) =
      [d, e, f, g]"
    using dec_step [OF dd(4), of "10 * (10 * digit_val d + digit_val e) + digit_val f"] pos assms(4)
    by (simp only: s2 digit_char_digit_val) simp
  show ?thesis
    unfolding eq by (rule s3)
qed

lemma parseTimeToString_MM_YYYY:
  assumes dig: "is_digit a" "is_digit b" "is_digit d" "is_digit e" "is_digit f" "is_digit g"
    and m: "10 * digit_val a + digit_val b \<le> 12" and nz: "d \<noteq> CHR ''0''"
  shows "parseTimeToString
      (first_of_month
         (of_nat (1000 * digit_val d + 100 * digit_val e + 10 * digit_val f + digit_val g))
         (of_nat (10 * digit_val a + digit_val b))) =
    [a, b, CHR ''-'', d, e, f, g]"
proof -
  have ylt: "1000 * digit_val d + 100 * digit_val e + 10 * digit_val f + digit_val g < 2 ^ 63"
    using dig(3-6) [THEN digit_val_less] by simp
  have mlt: "10 * digit_val a + digit_val b < 2 ^ 63" using m by simp
  have "fmt_02d (of_nat (10 * digit_val a + digit_val b)) = [a, b]"
    unfolding fmt_02d_def fmt_d_nat [OF mlt] using dec_two [OF dig(1,2)] by (simp add: Let_def)
  moreover have "fmt_d (of_nat (1000 * digit_val d + 100 * digit_val e + 10 * digit_val f +
      digit_val g)) = [d, e, f, g]"
    unfolding fmt_d_nat [OF ylt] using dig(3-6) nz by (rule dec_four)
  ultimately show ?thesis
    by (simp add: parseTimeToString_def first_of_month_def)
qed

lemma parse_07_2025: "parseDate l ''07-2025'' = Inr (first_of_month 2025 7)"
  by (simp add: parseDate_def Atoi_def is_digit_def digit_val_def time_Date_def
        representable_year_def first_of_month_def)

lemma parse_09_2025: "parseDate l ''09-2025'' = Inr (first_of_month 2025 9)"
  by (simp add: parseDate_def Atoi_def is_digit_def digit_val_def time_Date_def
        representable_year_def first_of_month_def)

text \<open>
  C4, as the code has it. For every string of the form \<open>MM-YYYY\<close> (two digits for a
  month 01 to 12, four digits for the year) whose year does not begin with the digit
  0, the parser succeeds and serializing the parsed date gives the string back: the
  month is printed zero-padded to two digits and the year without padding.
\<close>

theorem month_date_roundtrip:
  assumes "valid_MM_YYYY s" and "s ! 3 \<noteq> CHR ''0''"
  shows "\<exists>t. parseDate l s = Inr t \<and> parseTimeToString t = s"
proof -
  define a b d e f g where "a = s ! 0" and "b = s ! 1" and "d = s ! 3" and "e = s ! 4"
    and "f = s ! 5" and "g = s ! 6"
  note defs = a_def b_def d_def e_def f_def g_def
  from assms(1) have s: "s = [a, b, CHR ''-'', d, e, f, g]"
    unfolding valid_MM_YYYY_def defs by (metis list7)
  from assms have dig: "is_digit a" "is_digit b" "is_digit d" "is_digit e" "is_digit f" "is_digit g"
    and m: "1 \<le> 10 * digit_val a + digit_val b" "10 * digit_val a + digit_val b \<le> 12"
    and nz: "d \<noteq> CHR ''0''"
    unfolding valid_MM_YYYY_def defs by simp_all
  show ?thesis
    using parseDate_MM_YYYY [OF dig m] parseTimeToString_MM_YYYY [OF dig m(2) nz]
    unfolding s [symmetric] by simp
qed

text \<open>The round trip at \<open>07-2025\<close>.\<close>

theorem month_date_roundtrip_witness:
  "valid_MM_YYYY ''07-2025'' \<and> ''07-2025'' ! 3 \<noteq> CHR ''0'' \<and>
   parseDate lib0 ''07-2025'' = Inr (first_of_month 2025 7) \<and>
   parseTimeToString (first_of_month 2025 7) = ''07-2025''"
proof -
  have v: "valid_MM_YYYY ''07-2025''"
    by (simp add: valid_MM_YYYY_def is_digit_def digit_val_def)
  have n: "''07-2025'' ! 3 \<noteq> CHR ''0''" by simp
  from month_date_roundtrip [OF v n] obtain t
    where "parseDate lib0 ''07-2025'' = Inr t" and "parseTimeToString t = ''07-2025''" by blast
  with v n show ?thesis by (simp add: parse_07_2025)
qed

text \<open>
  C4 as stated fails for a year written with a leading zero: \<open>07-0025\<close> is of the form
  \<open>MM-YYYY\<close>, parses to July of the year 25, and is serialized as \<open>07-25\<close>.
\<close>

theorem leading_zero_year_counterexample:
  "valid_MM_YYYY ''07-0025'' \<and> parseDate lib0 ''07-0025'' = Inr (first_of_month 25 7) \<and>
   parseTimeToString (first_of_month 25 7) = ''07-25'' \<and>
   parseTimeToString (first_of_month 25 7) \<noteq> ''07-0025''"
proof -
  have v: "valid_MM_YYYY ''07-0025''"
    by (simp add: valid_MM_YYYY_def is_digit_def digit_val_def)
  have p: "parseDate lib0 ''07-0025'' = Inr (first_of_month 25 7)"
    by (simp add: parseDate_def Atoi_def is_digit_def digit_val_def time_Date_def
          representable_year_def first_of_month_def)
  have f: "parseTimeToString (first_of_month 25 7) = ''07-25''"
    by code_simp
  from v p f show ?thesis by simp
qed

lemma Split_nonempty: "strings_Split s c \<noteq> []"
  by (induction s) (auto split: list.splits)

lemma length_Split: "length (strings_Split s c) = Suc (count_list s c)"
  by (induction s) (auto split: list.splits simp: Split_nonempty)

lemma Split_no_sep: "count_list s c = 0 \<Longrightarrow> strings_Split s c = [s]"
  by (induction s) (auto split: list.splits if_splits)

lemma Split_one_sep:
  "count_list s c = 1 \<Longrightarrow>
   strings_Split s c = [takeWhile (\<lambda>x. x \<noteq> c) s, tl (dropWhile (\<lambda>x. x \<noteq> c) s)]"
  by (induction s) (auto split: list.splits if_splits simp: Split_no_sep)

lemma count_takeWhile: "count_list (takeWhile (\<lambda>x. x \<noteq> c) s) c = 0"
  by (induction s) auto

lemma count_year_segment:
  "count_list s c = 1 \<Longrightarrow> count_list (tl (dropWhile (\<lambda>x. x \<noteq> c) s)) c = 0"
  by (induction s) (auto split: if_splits)

lemma Atoi_segment:
  assumes "count_list seg (CHR ''-'') = 0"
  shows "Atoi seg = (if numeric_segment seg then Inr (segment_value seg)
                     else Inl (if strip_plus seg \<noteq> [] \<and> list_all is_digit (strip_plus seg)
                               then ErrRange else ErrSyntax))"
proof (cases seg)
  case Nil
  then show ?thesis by (simp add: Atoi_def numeric_segment_def strip_plus_def)
next
  case (Cons c r)
  with assms have "c \<noteq> CHR ''-''" by (auto split: if_splits)
  with Cons show ?thesis
    by (auto simp add: Atoi_def numeric_segment_def strip_plus_def segment_value_def Let_def)
qed

lemma parseDate_wrong_count:
  "count_list s (CHR ''-'') \<noteq> 1 \<Longrightarrow>
   parseDate l s = Inl (Errorf ''%w: %v'' ErrInvalidDateFormat [s])"
  by (simp add: parseDate_def length_Split Let_def)

lemma parseDate_two_segments:
  assumes "count_list s (CHR ''-'') = 1"
  shows "parseDate l s =
     (if accepted_date s
      then Inr (time_Date l (segment_value (year_segment s)) (segment_value (month_segment s)))
      else Inl (Errorf ''%w: %v'' ErrInvalidDate [s]))"
proof -
  have m: "count_list (month_segment s) (CHR ''-'') = 0"
    unfolding month_segment_def by (rule count_takeWhile)
  have y: "count_list (year_segment s) (CHR ''-'') = 0"
    unfolding year_segment_def using assms by (rule count_year_segment)
  have sp: "strings_Split s (CHR ''-'') = [month_segment s, year_segment s]"
    unfolding month_segment_def year_segment_def using assms by (rule Split_one_sep)
  show ?thesis
    unfolding parseDate_def accepted_date_def sp Let_def
    by (simp add: assms Atoi_segment [OF m] Atoi_segment [OF y])
qed

lemma valid_MM_YYYY_accepted:
  assumes "valid_MM_YYYY s"
  shows "accepted_date s \<and> representable_year (segment_value (year_segment s))"
proof -
  define a b d e f g where "a = s ! 0" and "b = s ! 1" and "d = s ! 3" and "e = s ! 4"
    and "f = s ! 5" and "g = s ! 6"
  note defs = a_def b_def d_def e_def f_def g_def
  from assms(1) have s: "s = [a, b, CHR ''-'', d, e, f, g]"
    unfolding valid_MM_YYYY_def defs by (metis list7)
  from assms have dig: "is_digit a" "is_digit b" "is_digit d" "is_digit e" "is_digit f" "is_digit g"
    and m: "1 \<le> 10 * digit_val a + digit_val b" "10 * digit_val a + digit_val b \<le> 12"
    unfolding valid_MM_YYYY_def defs by simp_all
  have c: "count_list s (CHR ''-'') = 1"
    unfolding s using dig by (simp add: is_digit_not_sign)
  have "parseDate lib0 s \<noteq> Inl (Errorf ''%w: %v'' ErrInvalidDate [s])"
    using parseDate_MM_YYYY [OF dig m, of lib0] unfolding s [symmetric] by simp
  then have acc: "accepted_date s"
    unfolding parseDate_two_segments [OF c] by (simp split: if_splits)
  have ys: "year_segment s = [d, e, f, g]"
    unfolding s year_segment_def using dig by (simp add: is_digit_not_sign)
  have "digits_value 0 [d, e, f, g] < 10000"
    using dig(3-6) [THEN digit_val_less] by simp
  then have "representable_year (segment_value (year_segment s))"
    unfolding ys segment_value_def strip_plus_def using dig(3)
    by (simp only: list.case is_digit_not_sign if_False representable_small)
  with acc show ?thesis by simp
qed

text \<open>
  C5, as the code has it. The parser succeeds exactly on the strings with one \<open>-\<close>
  whose two segments are numeric (decimal digits after an optional \<open>+\<close>, with a value
  that fits an \<open>int\<close>) and whose first segment has a value in 1..12; it then returns what
  \<open>time.Date\<close> makes of the two values, which for a representable year (every year of
  at most eleven digits is one) is day 1, 00:00:00 UTC of that month and year. Every
  string of the exact form \<open>MM-YYYY\<close> is accepted and gives that date. A segment count
  other than two fails with \<open>ErrInvalidDateFormat\<close>; two segments of which one is not
  numeric, or a month outside 1..12, fail with \<open>ErrInvalidDate\<close>. The strings \<open>13-2025\<close>,
  \<open>00-2025\<close>, \<open>2025-13\<close>, \<open>7/2025\<close> and the empty string are rejected.
\<close>

theorem parseDate_accepts:
  "((\<exists>t. parseDate l s = Inr t) \<longleftrightarrow> accepted_date s) \<and>
   (accepted_date s \<longrightarrow>
      parseDate l s =
        Inr (time_Date l (segment_value (year_segment s)) (segment_value (month_segment s)))) \<and>
   (accepted_date s \<and> representable_year (segment_value (year_segment s)) \<longrightarrow>
      parseDate l s =
        Inr \<lparr>Year = segment_value (year_segment s), Month = segment_value (month_segment s),
             Day = 1, Clock = 0, Late = False\<rparr>) \<and>
   (valid_MM_YYYY s \<longrightarrow>
      accepted_date s \<and>
      parseDate l s =
        Inr \<lparr>Year = segment_value (year_segment s), Month = segment_value (month_segment s),
             Day = 1, Clock = 0, Late = False\<rparr>) \<and>
   (count_list s (CHR ''-'') \<noteq> 1 \<longrightarrow>
      parseDate l s = Inl (Errorf ''%w: %v'' ErrInvalidDateFormat [s])) \<and>
   (count_list s (CHR ''-'') = 1 \<and> \<not> accepted_date s \<longrightarrow>
      parseDate l s = Inl (Errorf ''%w: %v'' ErrInvalidDate [s])) \<and>
   errors_Is (Errorf ''%w: %v'' ErrInvalidDateFormat [s]) ErrInvalidDateFormat \<and>
   errors_Is (Errorf ''%w: %v'' ErrInvalidDate [s]) ErrInvalidDate \<and>
   parseDate l ''13-2025'' = Inl (Errorf ''%w: %v'' ErrInvalidDate [''13-2025'']) \<and>
   parseDate l ''00-2025'' = Inl (Errorf ''%w: %v'' ErrInvalidDate [''00-2025'']) \<and>
   parseDate l ''2025-13'' = Inl (Errorf ''%w: %v'' ErrInvalidDate [''2025-13'']) \<and>
   parseDate l ''7/2025'' = Inl (Errorf ''%w: %v'' ErrInvalidDateFormat [''7/2025'']) \<and>
   parseDate l [] = Inl (Errorf ''%w: %v'' ErrInvalidDateFormat [[]])"
proof -
  have acc: "accepted_date s \<Longrightarrow> count_list s (CHR ''-'') = 1"
    by (simp add: accepted_date_def)
  have mon: "accepted_date s \<Longrightarrow>
      1 \<le> sint (segment_value (month_segment s)) \<and> sint (segment_value (month_segment s)) \<le> 12"
    by (simp add: accepted_date_def)
  have 1: "(\<exists>t. parseDate l s = Inr t) \<longleftrightarrow> accepted_date s"
  proof (cases "count_list s (CHR ''-'') = 1")
    case True
    then show ?thesis by (simp add: parseDate_two_segments)
  next
    case False
    with acc show ?thesis by (auto simp add: parseDate_wrong_count)
  qed
  have 2: "accepted_date s \<longrightarrow>
      parseDate l s =
        Inr (time_Date l (segment_value (year_segment s)) (segment_value (month_segment s)))"
    using acc by (simp add: parseDate_two_segments)
  have 3: "parseDate l s =
        Inr \<lparr>Year = segment_value (year_segment s), Month = segment_value (month_segment s),
             Day = 1, Clock = 0, Late = False\<rparr>"
    if "accepted_date s" "representable_year (segment_value (year_segment s))"
    using that 2 mon by (simp add: time_Date_exact first_of_month_def)
  have 4: "valid_MM_YYYY s \<longrightarrow>
      accepted_date s \<and>
      parseDate l s =
        Inr \<lparr>Year = segment_value (year_segment s), Month = segment_value (month_segment s),
             Day = 1, Clock = 0, Late = False\<rparr>"
    using valid_MM_YYYY_accepted [of s] 3 by blast
  have 5: "count_list s (CHR ''-'') \<noteq> 1 \<longrightarrow>
      parseDate l s = Inl (Errorf ''%w: %v'' ErrInvalidDateFormat [s])"
    by (simp add: parseDate_wrong_count)
  have 6: "count_list s (CHR ''-'') = 1 \<and> \<not> accepted_date s \<longrightarrow>
      parseDate l s = Inl (Errorf ''%w: %v'' ErrInvalidDate [s])"
    by (simp add: parseDate_two_segments)
  have 7: "parseDate l ''13-2025'' = Inl (Errorf ''%w: %v'' ErrInvalidDate [''13-2025''])"
    "parseDate l ''00-2025'' = Inl (Errorf ''%w: %v'' ErrInvalidDate [''00-2025''])"
    "parseDate l ''2025-13'' = Inl (Errorf ''%w: %v'' ErrInvalidDate [''2025-13''])"
    by (simp_all add: parseDate_def Atoi_def is_digit_def digit_val_def)
  have 8: "parseDate l ''7/2025'' = Inl (Errorf ''%w: %v'' ErrInvalidDateFormat [''7/2025''])"
    "parseDate l [] = Inl (Errorf ''%w: %v'' ErrInvalidDateFormat [[]])"
    by (simp_all add: parseDate_def)
  have 9: "errors_Is (Errorf ''%w: %v'' ErrInvalidDateFormat [s]) ErrInvalidDateFormat"
    "errors_Is (Errorf ''%w: %v'' ErrInvalidDate [s]) ErrInvalidDate"
    by simp_all
  from 1 2 3 4 5 6 7 8 9 show ?thesis by blast
qed

text \<open>
  The cases at \<open>07-2025\<close>, at \<open>1-2-3\<close> (three segments), at \<open>ab-2025\<close> (a segment that
  is not numeric), and at \<open>07-300000000000\<close>, accepted with a year that is not
  representable: the parser returns the wrapped date of the library, 23 August of the
  year -284554049254.
\<close>

theorem parseDate_accepts_witness:
  "valid_MM_YYYY ''07-2025'' \<and> accepted_date ''07-2025'' \<and>
   representable_year (segment_value (year_segment ''07-2025'')) \<and>
   parseDate lib0 ''07-2025'' =
     Inr \<lparr>Year = 2025, Month = 7, Day = 1, Clock = 0, Late = False\<rparr> \<and>
   count_list ''1-2-3'' (CHR ''-'') \<noteq> 1 \<and>
   parseDate lib0 ''1-2-3'' = Inl (Errorf ''%w: %v'' ErrInvalidDateFormat [''1-2-3'']) \<and>
   count_list ''ab-2025'' (CHR ''-'') = 1 \<and> \<not> accepted_date ''ab-2025'' \<and>
   parseDate lib0 ''ab-2025'' = Inl (Errorf ''%w: %v'' ErrInvalidDate [''ab-2025'']) \<and>
   accepted_date ''07-300000000000'' \<and>
   \<not> representable_year (segment_value (year_segment ''07-300000000000'')) \<and>
   parseDate lib0 ''07-300000000000'' = Inr wrapped_07_300000000000"
proof -
  have v: "valid_MM_YYYY ''07-2025''"
    by (simp add: valid_MM_YYYY_def is_digit_def digit_val_def)
  have y: "segment_value (year_segment ''07-2025'') = 2025"
    "segment_value (month_segment ''07-2025'') = 7"
    by (simp_all add: segment_value_def year_segment_def month_segment_def strip_plus_def
          digit_val_def)
  have r: "representable_year (segment_value (year_segment ''07-2025''))"
    unfolding y by (simp add: representable_year_def)
  have n: "\<not> accepted_date ''ab-2025''"
    by (simp add: accepted_date_def month_segment_def numeric_segment_def strip_plus_def
          is_digit_def)
  have b: "segment_value (year_segment ''07-300000000000'') = 300000000000"
    "segment_value (month_segment ''07-300000000000'') = 7"
    by (simp_all add: segment_value_def year_segment_def month_segment_def strip_plus_def
          digit_val_def)
  have a: "accepted_date ''07-300000000000''"
    unfolding accepted_date_def b
    by (simp add: year_segment_def month_segment_def numeric_segment_def strip_plus_def
          is_digit_def digit_val_def)
  have w: "time_Date lib0 300000000000 7 = wrapped_07_300000000000"
    "\<not> representable_year 300000000000"
    by (simp_all add: time_Date_def representable_year_def lib0_def)
  show ?thesis
    using parseDate_accepts [of lib0 "''07-2025''"] parseDate_accepts [of lib0 "''1-2-3''"]
      parseDate_accepts [of lib0 "''ab-2025''"] parseDate_accepts [of lib0 "''07-300000000000''"]
      v y r n a b w
    by simp
qed

text \<open>
  C5 as stated fails: the parser does not insist on the widths of \<open>MM-YYYY\<close>. It
  accepts \<open>7-2025\<close>, whose month has one digit.
\<close>

theorem single_digit_month_counterexample:
  "parseDate lib0 ''7-2025'' = Inr \<lparr>Year = 2025, Month = 7, Day = 1, Clock = 0, Late = False\<rparr> \<and>
   \<not> valid_MM_YYYY ''7-2025''"
  by (simp add: parseDate_def Atoi_def is_digit_def digit_val_def time_Date_def
        representable_year_def valid_MM_YYYY_def)

section \<open>The cost aggregation\<close>

lemma time_Date_regular:
  "regular t \<Longrightarrow> time_Date l (Year t) (Month t) = first_of_month (Year t) (Month t)"
  by (simp add: regular_def time_Date_exact)

lemma Before_irrefl: "\<not> Before t t"
  by (simp add: Before_def)

lemma Before_first_of_month:
  assumes "regular s" "regular e"
    and "Before (first_of_month (Year e) (Month e)) (first_of_month (Year s) (Month s))"
  shows "Before e s"
  using assms by (auto simp add: Before_def first_of_month_def regular_def)

lemma monthsBetween_formula:
  assumes "regular s" "regular e" "\<not> Before e s"
  shows "monthsBetween l s e = (Year e - Year s) * 12 + (Month e - Month s)"
proof -
  have "\<not> Before (first_of_month (Year e) (Month e)) (first_of_month (Year s) (Month s))"
    using assms Before_first_of_month by blast
  then show ?thesis
    using assms(1,2)
    by (simp add: monthsBetween_def Let_def time_Date_regular) (simp add: first_of_month_def)
qed

lemma monthsBetween_same_month:
  "Year s = Year e \<Longrightarrow> Month s = Month e \<Longrightarrow> monthsBetween l s e = 0"
  by (simp add: monthsBetween_def Let_def Before_irrefl)

lemma cost_step_add:
  "cost_step l now sd ed tot sub = tot + cost_step l now sd ed 0 sub"
  by (simp add: cost_step_def)

lemma foldl_cost_step:
  "foldl (cost_step l now sd ed) a subs = a + sum_list (map (cost_step l now sd ed 0) subs)"
proof (induction subs arbitrary: a)
  case Nil
  then show ?case by simp
next
  case (Cons sub subs)
  show ?case
    using Cons.IH [of "cost_step l now sd ed a sub"] cost_step_add [of l now sd ed a sub]
    by (simp add: add.assoc)
qed

lemma cost_loop_sum:
  "cost_loop l now sd ed subs = sum_list (map (cost_step l now sd ed 0) subs)"
  by (simp add: cost_loop_def foldl_cost_step)

lemma cost_step_contribution:
  assumes "regular (calcStart sd sub)" "regular (calcEnd now ed sub)"
  shows "cost_step l now sd ed tot sub = tot + contribution now sd ed sub"
  using assms by (simp add: cost_step_def contribution_def Let_def monthsBetween_formula)

lemma cost_loop_contribution:
  assumes "\<forall>sub\<in>set subs. regular (calcStart sd sub) \<and> regular (calcEnd now ed sub)"
  shows "cost_loop l now sd ed subs = sum_list (map (contribution now sd ed) subs)"
proof -
  have "map (cost_step l now sd ed 0) subs = map (contribution now sd ed) subs"
  proof (rule map_cong [OF refl])
    fix sub assume "sub \<in> set subs"
    with assms have "regular (calcStart sd sub)" "regular (calcEnd now ed sub)" by auto
    then show "cost_step l now sd ed 0 sub = contribution now sd ed sub"
      using cost_step_contribution [of sd sub now ed l 0] by simp
  qed
  then show ?thesis unfolding cost_loop_sum by (rule arg_cong)
qed

lemma Service_SubscriptionsCost_fetch:
  assumes "rel_option (\<lambda>u x. uuid_Parse l u = Inr x) (CQ_UserID f) userID"
    and "rel_option (\<lambda>s t. parseDate l s = Inr t) (CQ_From f) startDate"
    and "rel_option (\<lambda>s t. parseDate l s = Inr t) (CQ_To f) endDate"
    and "I_SubscriptionsCost repo \<lparr>C_UserID = userID, C_ServiceName = CQ_ServiceName f\<rparr> db =
         (Inr subs, db')"
  shows "Service_SubscriptionsCost l repo now f db =
         (Inr (cost_loop l now startDate endDate subs), db')"
  using assms
  by (auto simp add: Service_SubscriptionsCost_def option.rel_sel split: option.splits)

lemma minTime_idem: "minTime (minTime a b) b = minTime a b"
  by (auto simp add: minTime_def Before_def)

lemma minTime_before: "Before b a \<Longrightarrow> minTime a b = b"
  by (auto simp add: minTime_def Before_def)

lemma cost_step_now_independent:
  "EndDate sub \<noteq> None \<Longrightarrow> cost_step l now sd ed tot sub = cost_step l now' sd ed tot sub"
  by (auto simp add: cost_step_def calcEnd_def actualEnd_def split: option.splits)

lemma cost_loop_now_independent:
  assumes "\<forall>sub\<in>set subs. EndDate sub \<noteq> None"
  shows "cost_loop l now sd ed subs = cost_loop l now' sd ed subs"
proof -
  have "map (cost_step l now sd ed 0) subs = map (cost_step l now' sd ed 0) subs"
    using assms by (intro map_cong refl cost_step_now_independent) simp
  then show ?thesis unfolding cost_loop_sum by (rule arg_cong)
qed

lemma no_overlap_skipped:
  "Before (calcEnd now ed sub) (calcStart sd sub) \<Longrightarrow> cost_step l now sd ed tot sub = tot"
  by (simp add: cost_step_def)

lemma scenario_cost:
  assumes "uuid_Parse l u = Inr uid" "\<not> Before now (first_of_month 2025 9)"
  shows "fst (Service_SubscriptionsCost l (SubscriptionRepository None None stamp') now cost_07_09
           (snd (Service_CreateSubscription l (SubscriptionRepository None None stamp) sid
              \<lparr>CR_ServiceName = ''Yandex Plus'', CR_Price = 400, CR_UserID = u,
               CR_StartDate = ''07-2025'', CR_EndDate = None\<rparr> []))) = Inr 800"
proof -
  let ?row = "\<lparr>ID = sid, ServiceName = ''Yandex Plus'', Price = 400, UserID = uid,
     StartDate = first_of_month 2025 7, EndDate = None, CreatedAt = stamp, UpdatedAt = stamp\<rparr>"
  have c: "snd (Service_CreateSubscription l (SubscriptionRepository None None stamp) sid
              \<lparr>CR_ServiceName = ''Yandex Plus'', CR_Price = 400, CR_UserID = u,
               CR_StartDate = ''07-2025'', CR_EndDate = None\<rparr> []) = [?row]"
    using assms(1)
    by (simp add: Service_CreateSubscription_def parse_07_2025 SubscriptionRepository_def
          Repository_CreateSubscription_def table_checks_def to_DATE_def first_of_month_def
          Let_def)
  have r: "regular (first_of_month 2025 7)" "regular (first_of_month 2025 9)"
    by (simp_all add: regular_def first_of_month_def representable_year_def)
  have s: "calcStart (Some (first_of_month 2025 7)) ?row = first_of_month 2025 7"
    by (simp add: calcStart_def maxTime_def After_def Before_irrefl)
  have e: "calcEnd now (Some (first_of_month 2025 9)) ?row = first_of_month 2025 9"
    using assms(2) by (simp add: calcEnd_def actualEnd_def minTime_def)
  have "cost_step l now (Some (first_of_month 2025 7)) (Some (first_of_month 2025 9)) 0 ?row =
      0 + contribution now (Some (first_of_month 2025 7)) (Some (first_of_month 2025 9)) ?row"
    by (rule cost_step_contribution) (simp_all only: s e r)
  also have "\<dots> = 800"
    unfolding contribution_def s e Let_def
    by (simp add: Before_def first_of_month_def)
  finally have "cost_loop l now (Some (first_of_month 2025 7)) (Some (first_of_month 2025 9))
      [?row] = 800"
    by (simp add: cost_loop_def)
  then show ?thesis
    unfolding c
    by (simp add: Service_SubscriptionsCost_def cost_07_09_def parse_07_2025 parse_09_2025
          SubscriptionRepository_def Repository_SubscriptionsCost_def whereClause_def)
qed

text \<open>
  C1, as the code has it. After the activity interval of a candidate is clipped to the
  query window, a candidate whose clipped end is before its clipped start adds nothing;
  any other adds its price times months, where months is
  \<open>(endYear - startYear) * 12 + (endMonth - startMonth)\<close> between the months of the two
  clipped endpoints, with no month added (for clipped endpoints in months that
  \<open>time.Date\<close> rebuilds exactly: representable years). The total of the loop, and the
  total the service returns, is the sum of these contributions over the candidates the
  repository returned. For the subscription of the scenario (created with price 400,
  start \<open>07-2025\<close>, no end date) and the query from \<open>07-2025\<close> to \<open>09-2025\<close>, the service
  returns 800 whenever the evaluation instant is not before 1 September 2025. A
  candidate whose clipped endpoints lie in one calendar month adds 0.
\<close>

theorem cost_contribution_formula:
  "(Before (calcEnd now endDate sub) (calcStart startDate sub) \<longrightarrow>
      cost_step l now startDate endDate tot sub = tot) \<and>
   (\<not> Before (calcEnd now endDate sub) (calcStart startDate sub) \<and>
    regular (calcStart startDate sub) \<and> regular (calcEnd now endDate sub) \<longrightarrow>
      cost_step l now startDate endDate tot sub =
        tot + Price sub *
          ((Year (calcEnd now endDate sub) - Year (calcStart startDate sub)) * 12 +
           (Month (calcEnd now endDate sub) - Month (calcStart startDate sub)))) \<and>
   ((\<forall>c\<in>set subs. regular (calcStart startDate c) \<and> regular (calcEnd now endDate c)) \<longrightarrow>
      cost_loop l now startDate endDate subs =
        sum_list (map (contribution now startDate endDate) subs)) \<and>
   (rel_option (\<lambda>u x. uuid_Parse l u = Inr x) (CQ_UserID f) userID \<and>
    rel_option (\<lambda>s t. parseDate l s = Inr t) (CQ_From f) startDate \<and>
    rel_option (\<lambda>s t. parseDate l s = Inr t) (CQ_To f) endDate \<and>
    I_SubscriptionsCost repo \<lparr>C_UserID = userID, C_ServiceName = CQ_ServiceName f\<rparr> db =
      (Inr subs, db') \<and>
    (\<forall>c\<in>set subs. regular (calcStart startDate c) \<and> regular (calcEnd now endDate c)) \<longrightarrow>
      Service_SubscriptionsCost l repo now f db =
        (Inr (sum_list (map (contribution now startDate endDate) subs)), db')) \<and>
   (uuid_Parse l u = Inr uid \<and> \<not> Before now (first_of_month 2025 9) \<longrightarrow>
      fst (Service_SubscriptionsCost l (SubscriptionRepository None None stamp') now cost_07_09
             (snd (Service_CreateSubscription l (SubscriptionRepository None None stamp) sid
                \<lparr>CR_ServiceName = ''Yandex Plus'', CR_Price = 400, CR_UserID = u,
                 CR_StartDate = ''07-2025'', CR_EndDate = None\<rparr> []))) = Inr 800) \<and>
   (Year (calcStart startDate sub) = Year (calcEnd now endDate sub) \<and>
    Month (calcStart startDate sub) = Month (calcEnd now endDate sub) \<longrightarrow>
      cost_step l now startDate endDate tot sub = tot)"
proof -
  have 2: "cost_step l now startDate endDate tot sub =
        tot + Price sub *
          ((Year (calcEnd now endDate sub) - Year (calcStart startDate sub)) * 12 +
           (Month (calcEnd now endDate sub) - Month (calcStart startDate sub)))"
    if "\<not> Before (calcEnd now endDate sub) (calcStart startDate sub)"
      and "regular (calcStart startDate sub)" and "regular (calcEnd now endDate sub)"
    using that by (simp add: cost_step_contribution contribution_def Let_def)
  have 4: "Service_SubscriptionsCost l repo now f db =
        (Inr (sum_list (map (contribution now startDate endDate) subs)), db')"
    if "rel_option (\<lambda>u x. uuid_Parse l u = Inr x) (CQ_UserID f) userID"
      and "rel_option (\<lambda>s t. parseDate l s = Inr t) (CQ_From f) startDate"
      and "rel_option (\<lambda>s t. parseDate l s = Inr t) (CQ_To f) endDate"
      and "I_SubscriptionsCost repo \<lparr>C_UserID = userID, C_ServiceName = CQ_ServiceName f\<rparr> db =
        (Inr subs, db')"
      and "\<forall>c\<in>set subs. regular (calcStart startDate c) \<and> regular (calcEnd now endDate c)"
    using Service_SubscriptionsCost_fetch [OF that(1-4), of now]
      cost_loop_contribution [OF that(5), of l]
    by simp
  have 6: "cost_step l now startDate endDate tot sub = tot"
    if "Year (calcStart startDate sub) = Year (calcEnd now endDate sub)"
      and "Month (calcStart startDate sub) = Month (calcEnd now endDate sub)"
    using that by (simp add: cost_step_def monthsBetween_same_month)
  show ?thesis
    using 2 4 6 no_overlap_skipped [of now endDate sub startDate l tot]
      cost_loop_contribution [of subs startDate now endDate l]
      scenario_cost [of l u uid now stamp' stamp sid]
    by blast
qed

lemma regular_examples:
  "regular (first_of_month 2025 7)" "regular (first_of_month 2025 8)"
  "regular (first_of_month 2025 9)" "regular autumn_2026" "regular mid_august"
  by (simp_all add: regular_def first_of_month_def representable_year_def autumn_2026_def
        mid_august_def)

lemma clip_examples:
  "calcStart (Some (first_of_month 2025 7)) yandex = first_of_month 2025 7"
  "calcStart (Some (first_of_month 2025 9)) yandex = first_of_month 2025 9"
  "calcEnd autumn_2026 (Some (first_of_month 2025 9)) yandex = first_of_month 2025 9"
  "calcEnd mid_august (Some (first_of_month 2025 9)) yandex = mid_august"
  "calcStart (Some (first_of_month 2025 7)) ended = first_of_month 2025 7"
  "calcStart (Some (first_of_month 2025 9)) ended = first_of_month 2025 9"
  "calcEnd now (Some (first_of_month 2025 9)) ended = first_of_month 2025 8"
  "calcStart None ended = first_of_month 2025 7"
  "calcEnd now None ended = first_of_month 2025 8"
  by (simp_all add: calcStart_def calcEnd_def actualEnd_def yandex_def ended_def maxTime_def
        minTime_def After_def Before_def first_of_month_def autumn_2026_def mid_august_def)

lemma fetch_examples:
  "I_SubscriptionsCost (SubscriptionRepository None None stamp)
     \<lparr>C_UserID = None, C_ServiceName = None\<rparr> db = (Inr db, db)"
  "rel_option (\<lambda>u x. uuid_Parse l u = Inr x) (CQ_UserID cost_07_09) None"
  "rel_option (\<lambda>s t. parseDate l s = Inr t) (CQ_From cost_07_09) (Some (first_of_month 2025 7))"
  "rel_option (\<lambda>s t. parseDate l s = Inr t) (CQ_To cost_07_09) (Some (first_of_month 2025 9))"
  "CQ_ServiceName cost_07_09 = None"
  by (simp_all add: SubscriptionRepository_def Repository_SubscriptionsCost_def whereClause_def
        cost_07_09_def parse_07_2025 parse_09_2025)

text \<open>
  On 30 October 2026: the scenario; the two example rows queried from \<open>07-2025\<close> to
  \<open>09-2025\<close>, 800 for two months of the open-ended one and 599 for one month of the one
  that ended in August; and the same rows clipped to September 2025 alone, where the
  ended one is skipped and the open-ended one lies in one month.
\<close>

theorem cost_contribution_formula_witness:
  "uuid_Parse lib0 ''60601fee-2bf1-4721-ae6f-7636e79a0cba'' = Inr 1 \<and>
   \<not> Before autumn_2026 (first_of_month 2025 9) \<and>
   fst (Service_SubscriptionsCost lib0 (SubscriptionRepository None None day0) autumn_2026
          cost_07_09
          (snd (Service_CreateSubscription lib0 (SubscriptionRepository None None day0) 7
             \<lparr>CR_ServiceName = ''Yandex Plus'', CR_Price = 400,
              CR_UserID = ''60601fee-2bf1-4721-ae6f-7636e79a0cba'',
              CR_StartDate = ''07-2025'', CR_EndDate = None\<rparr> []))) = Inr 800 \<and>
   \<not> Before (calcEnd autumn_2026 (Some (first_of_month 2025 9)) yandex)
       (calcStart (Some (first_of_month 2025 7)) yandex) \<and>
   regular (calcStart (Some (first_of_month 2025 7)) yandex) \<and>
   regular (calcEnd autumn_2026 (Some (first_of_month 2025 9)) yandex) \<and>
   cost_step lib0 autumn_2026 (Some (first_of_month 2025 7)) (Some (first_of_month 2025 9))
     5 yandex = 805 \<and>
   regular (calcStart (Some (first_of_month 2025 7)) ended) \<and>
   regular (calcEnd autumn_2026 (Some (first_of_month 2025 9)) ended) \<and>
   Service_SubscriptionsCost lib0 (SubscriptionRepository None None day0) autumn_2026
     cost_07_09 [yandex, ended] = (Inr 1399, [yandex, ended]) \<and>
   Before (calcEnd autumn_2026 (Some (first_of_month 2025 9)) ended)
     (calcStart (Some (first_of_month 2025 9)) ended) \<and>
   cost_step lib0 autumn_2026 (Some (first_of_month 2025 9)) (Some (first_of_month 2025 9))
     5 ended = 5 \<and>
   Year (calcStart (Some (first_of_month 2025 9)) yandex) =
     Year (calcEnd autumn_2026 (Some (first_of_month 2025 9)) yandex) \<and>
   Month (calcStart (Some (first_of_month 2025 9)) yandex) =
     Month (calcEnd autumn_2026 (Some (first_of_month 2025 9)) yandex) \<and>
   cost_step lib0 autumn_2026 (Some (first_of_month 2025 9)) (Some (first_of_month 2025 9))
     5 yandex = 5"
proof -
  have u: "uuid_Parse lib0 ''60601fee-2bf1-4721-ae6f-7636e79a0cba'' = Inr 1"
    by (simp add: lib0_def)
  have b: "\<not> Before autumn_2026 (first_of_month 2025 9)"
    by (simp add: Before_def autumn_2026_def first_of_month_def)
  have n: "\<not> Before (first_of_month 2025 9) (first_of_month 2025 7)"
    "\<not> Before (first_of_month 2025 8) (first_of_month 2025 7)"
    "Before (first_of_month 2025 8) (first_of_month 2025 9)"
    by (simp_all add: Before_def first_of_month_def)
  have p: "Price yandex = 400" "Price ended = 599"
    by (simp_all add: yandex_def ended_def)
  have ym: "Year (first_of_month y m) = y" "Month (first_of_month y m) = m" for y m
    by (simp_all add: first_of_month_def)
  have all: "\<forall>c\<in>set [yandex, ended].
      regular (calcStart (Some (first_of_month 2025 7)) c) \<and>
      regular (calcEnd autumn_2026 (Some (first_of_month 2025 9)) c)"
    by (simp add: clip_examples regular_examples)
  have sum: "sum_list (map (contribution autumn_2026 (Some (first_of_month 2025 7))
      (Some (first_of_month 2025 9))) [yandex, ended]) = 1399"
    by (simp add: contribution_def clip_examples n p ym Let_def)
  note A = cost_contribution_formula [where l = lib0 and now = autumn_2026
      and startDate = "Some (first_of_month 2025 7)" and endDate = "Some (first_of_month 2025 9)"
      and sub = yandex and tot = 5 and subs = "[yandex, ended]" and f = cost_07_09
      and userID = None and repo = "SubscriptionRepository None None day0"
      and db = "[yandex, ended]" and db' = "[yandex, ended]"
      and u = "''60601fee-2bf1-4721-ae6f-7636e79a0cba''" and uid = 1 and stamp = day0
      and stamp' = day0 and sid = 7]
  note B = cost_contribution_formula [where l = lib0 and now = autumn_2026
      and startDate = "Some (first_of_month 2025 9)" and endDate = "Some (first_of_month 2025 9)"
      and sub = ended and tot = 5 and subs = "[]" and f = cost_07_09
      and userID = None and repo = "SubscriptionRepository None None day0"
      and db = "[]" and db' = "[]"
      and u = "''60601fee-2bf1-4721-ae6f-7636e79a0cba''" and uid = 1 and stamp = day0
      and stamp' = day0 and sid = 7]
  note C = cost_contribution_formula [where l = lib0 and now = autumn_2026
      and startDate = "Some (first_of_month 2025 9)" and endDate = "Some (first_of_month 2025 9)"
      and sub = yandex and tot = 5 and subs = "[]" and f = cost_07_09
      and userID = None and repo = "SubscriptionRepository None None day0"
      and db = "[]" and db' = "[]"
      and u = "''60601fee-2bf1-4721-ae6f-7636e79a0cba''" and uid = 1 and stamp = day0
      and stamp' = day0 and sid = 7]
  from A u b have 1: "fst (Service_SubscriptionsCost lib0 (SubscriptionRepository None None day0)
          autumn_2026 cost_07_09
          (snd (Service_CreateSubscription lib0 (SubscriptionRepository None None day0) 7
             \<lparr>CR_ServiceName = ''Yandex Plus'', CR_Price = 400,
              CR_UserID = ''60601fee-2bf1-4721-ae6f-7636e79a0cba'',
              CR_StartDate = ''07-2025'', CR_EndDate = None\<rparr> []))) = Inr 800"
    by blast
  from A have 2: "cost_step lib0 autumn_2026 (Some (first_of_month 2025 7))
      (Some (first_of_month 2025 9)) 5 yandex = 805"
    by (simp add: clip_examples regular_examples n p ym)
  from A all have 3: "Service_SubscriptionsCost lib0 (SubscriptionRepository None None day0)
      autumn_2026 cost_07_09 [yandex, ended] = (Inr 1399, [yandex, ended])"
    by (simp only: fetch_examples sum)
  from B have 4: "cost_step lib0 autumn_2026 (Some (first_of_month 2025 9))
      (Some (first_of_month 2025 9)) 5 ended = 5"
    by (simp add: clip_examples n)
  from C have 5: "cost_step lib0 autumn_2026 (Some (first_of_month 2025 9))
      (Some (first_of_month 2025 9)) 5 yandex = 5"
    by (simp add: clip_examples)
  from u b 1 2 3 4 5 show ?thesis
    by (simp add: clip_examples regular_examples n)
qed

text \<open>
  C1 as stated fails before September 2025: on 15 August 2025 the open-ended
  subscription of the scenario is clipped at the evaluation instant, one month after its
  start, and the same query returns 400.
\<close>

theorem cost_scenario_in_august_counterexample:
  "Service_SubscriptionsCost lib0 (SubscriptionRepository None None day0) mid_august cost_07_09
     [yandex] = (Inr 400, [yandex]) \<and>
   Price yandex = 400 \<and> StartDate yandex = first_of_month 2025 7 \<and> EndDate yandex = None \<and>
   parseDate lib0 ''07-2025'' = Inr (first_of_month 2025 7) \<and>
   parseDate lib0 ''09-2025'' = Inr (first_of_month 2025 9) \<and>
   (400 :: go_int) \<noteq> 800"
proof -
  have "cost_step lib0 mid_august (Some (first_of_month 2025 7)) (Some (first_of_month 2025 9))
      0 yandex =
      0 + contribution mid_august (Some (first_of_month 2025 7)) (Some (first_of_month 2025 9))
            yandex"
    by (rule cost_step_contribution) (simp_all add: clip_examples regular_examples)
  also have "\<dots> = 400"
    by (simp add: contribution_def clip_examples Let_def)
      (simp add: Before_def first_of_month_def mid_august_def yandex_def)
  finally have "cost_loop lib0 mid_august (Some (first_of_month 2025 7))
      (Some (first_of_month 2025 9)) [yandex] = 400"
    by (simp add: cost_loop_def)
  then show ?thesis
    using fetch_examples(1) [of day0 "[yandex]"]
    by (simp add: Service_SubscriptionsCost_def cost_07_09_def parse_07_2025 parse_09_2025
          yandex_def)
qed

lemma cost_step_beyond_to:
  assumes "Before to now" "Before to now'"
  shows "cost_step l now sd (Some to) tot sub = cost_step l now' sd (Some to) tot sub"
proof -
  have "calcEnd now (Some to) sub = calcEnd now' (Some to) sub"
    using assms by (cases "EndDate sub") (simp_all add: calcEnd_def actualEnd_def minTime_before)
  then show ?thesis by (simp add: cost_step_def)
qed

lemma cost_loop_beyond_to:
  assumes "Before to now" "Before to now'"
  shows "cost_loop l now sd (Some to) subs = cost_loop l now' sd (Some to) subs"
  unfolding cost_loop_sum
  by (rule arg_cong [where f = sum_list], rule map_cong [OF refl])
    (rule cost_step_beyond_to [OF assms])

lemma Service_SubscriptionsCost_beyond_to:
  assumes t: "CQ_To f = Some t" "parseDate l t = Inr to"
    and b: "Before to now" "Before to now'"
  shows "Service_SubscriptionsCost l repo now f db = Service_SubscriptionsCost l repo now' f db"
proof -
  have "(case I_SubscriptionsCost repo q db of
           (Inl err, db') \<Rightarrow> (Inl (Errorf ''error getting subscriptions cost: %w'' err []), db')
         | (Inr subs, db') \<Rightarrow> (Inr (cost_loop l now sd (Some to) subs), db')) =
        (case I_SubscriptionsCost repo q db of
           (Inl err, db') \<Rightarrow> (Inl (Errorf ''error getting subscriptions cost: %w'' err []), db')
         | (Inr subs, db') \<Rightarrow> (Inr (cost_loop l now' sd (Some to) subs), db'))" for q sd
    by (simp add: cost_loop_beyond_to [OF b] split: prod.splits sum.splits)
  then show ?thesis
    by (simp add: Service_SubscriptionsCost_def t split: option.splits sum.splits)
qed

text \<open>
  C2. For an open-ended candidate (no end month recorded) the actual end is the
  evaluation instant \<open>now\<close>; with a bound \<open>to\<close> the clipped end is the earlier of \<open>now\<close>
  and \<open>to\<close>, hence \<open>to\<close> itself when \<open>to\<close> is before \<open>now\<close>; the clipped end is never
  after \<open>now\<close>. The candidate is billed from its clipped start through that clipped end:
  the loop adds its price times the months between the two (nothing when the clipped end
  is before the clipped start), and with the candidate alone the service returns that
  amount. It adds what a subscription that ended at the earlier of \<open>now\<close> and \<open>to\<close>
  adds, at whatever instant that one is evaluated. Billing does not go on past \<open>to\<close>: at
  two evaluation instants after \<open>to\<close> the loop adds the same amount and the service
  returns the same total.
\<close>

theorem open_ended_billed_through_min_now_to:
  assumes "EndDate sub = None"
  shows "actualEnd now sub = now \<and>
         calcEnd now None sub = now \<and>
         calcEnd now (Some to) sub = minTime now to \<and>
         (Before to now \<longrightarrow> calcEnd now (Some to) sub = to) \<and>
         \<not> Before now (calcEnd now endDate sub) \<and>
         (regular (calcStart startDate sub) \<and> regular (minTime now to) \<longrightarrow>
            cost_step l now startDate (Some to) tot sub =
              (if Before (minTime now to) (calcStart startDate sub) then tot
               else tot + Price sub *
                      ((Year (minTime now to) - Year (calcStart startDate sub)) * 12 +
                       (Month (minTime now to) - Month (calcStart startDate sub))))) \<and>
         (regular (calcStart startDate sub) \<and> regular now \<longrightarrow>
            cost_step l now startDate None tot sub =
              (if Before now (calcStart startDate sub) then tot
               else tot + Price sub *
                      ((Year now - Year (calcStart startDate sub)) * 12 +
                       (Month now - Month (calcStart startDate sub))))) \<and>
         (rel_option (\<lambda>u x. uuid_Parse l u = Inr x) (CQ_UserID f) userID \<and>
          rel_option (\<lambda>s t. parseDate l s = Inr t) (CQ_From f) startDate \<and>
          rel_option (\<lambda>s t. parseDate l s = Inr t) (CQ_To f) (Some to) \<and>
          I_SubscriptionsCost repo \<lparr>C_UserID = userID, C_ServiceName = CQ_ServiceName f\<rparr> db =
            (Inr [sub], db') \<and>
          regular (calcStart startDate sub) \<and> regular (minTime now to) \<longrightarrow>
            Service_SubscriptionsCost l repo now f db =
              (Inr (if Before (minTime now to) (calcStart startDate sub) then 0
                    else Price sub *
                           ((Year (minTime now to) - Year (calcStart startDate sub)) * 12 +
                            (Month (minTime now to) - Month (calcStart startDate sub)))), db')) \<and>
         cost_step l now startDate (Some to) tot sub =
           cost_step l now' startDate (Some to) tot (sub\<lparr>EndDate := Some (minTime now to)\<rparr>) \<and>
         (Before to now \<and> Before to now' \<longrightarrow>
            cost_step l now startDate (Some to) tot sub =
              cost_step l now' startDate (Some to) tot sub) \<and>
         (CQ_To f = Some t \<and> parseDate l t = Inr to \<and> Before to now \<and> Before to now' \<longrightarrow>
            Service_SubscriptionsCost l repo now f db =
              Service_SubscriptionsCost l repo now' f db)"
proof -
  have 1: "actualEnd now sub = now" "calcEnd now None sub = now"
    "calcEnd now (Some to) sub = minTime now to"
    using assms by (simp_all add: actualEnd_def calcEnd_def)
  have 2: "Before to now \<longrightarrow> calcEnd now (Some to) sub = to"
    unfolding 1 by (simp add: minTime_before)
  have 3: "\<not> Before now (calcEnd now endDate sub)"
    using assms
    by (auto simp add: actualEnd_def calcEnd_def minTime_def Before_def split: option.splits)
  have 4: "cost_step l now startDate (Some to) tot sub =
              (if Before (minTime now to) (calcStart startDate sub) then tot
               else tot + Price sub *
                      ((Year (minTime now to) - Year (calcStart startDate sub)) * 12 +
                       (Month (minTime now to) - Month (calcStart startDate sub))))"
    if "regular (calcStart startDate sub)" "regular (minTime now to)" for tot
    using that cost_step_contribution [of startDate sub now "Some to" l tot]
    by (simp add: 1 contribution_def Let_def)
  have 5: "cost_step l now startDate None tot sub =
              (if Before now (calcStart startDate sub) then tot
               else tot + Price sub *
                      ((Year now - Year (calcStart startDate sub)) * 12 +
                       (Month now - Month (calcStart startDate sub))))"
    if "regular (calcStart startDate sub)" "regular now"
    using that cost_step_contribution [of startDate sub now None l tot]
    by (simp add: 1 contribution_def Let_def)
  have 6: "Service_SubscriptionsCost l repo now f db =
              (Inr (if Before (minTime now to) (calcStart startDate sub) then 0
                    else Price sub *
                           ((Year (minTime now to) - Year (calcStart startDate sub)) * 12 +
                            (Month (minTime now to) - Month (calcStart startDate sub)))), db')"
    if "rel_option (\<lambda>u x. uuid_Parse l u = Inr x) (CQ_UserID f) userID"
      and "rel_option (\<lambda>s t. parseDate l s = Inr t) (CQ_From f) startDate"
      and "rel_option (\<lambda>s t. parseDate l s = Inr t) (CQ_To f) (Some to)"
      and "I_SubscriptionsCost repo \<lparr>C_UserID = userID, C_ServiceName = CQ_ServiceName f\<rparr> db =
        (Inr [sub], db')"
      and "regular (calcStart startDate sub)" and "regular (minTime now to)"
    using Service_SubscriptionsCost_fetch [OF that(1-4), of now] 4 [OF that(5,6), of 0]
    by (simp add: cost_loop_def)
  have 7: "cost_step l now startDate (Some to) tot sub =
           cost_step l now' startDate (Some to) tot (sub\<lparr>EndDate := Some (minTime now to)\<rparr>)"
    using assms
    by (simp add: cost_step_def calcEnd_def actualEnd_def calcStart_def minTime_idem
          split: option.splits)
  have 8: "Before to now \<and> Before to now' \<longrightarrow>
            cost_step l now startDate (Some to) tot sub =
              cost_step l now' startDate (Some to) tot sub"
    using cost_step_beyond_to by blast
  have 9: "CQ_To f = Some t \<and> parseDate l t = Inr to \<and> Before to now \<and> Before to now' \<longrightarrow>
            Service_SubscriptionsCost l repo now f db =
              Service_SubscriptionsCost l repo now' f db"
  proof (intro impI, elim conjE)
    assume "CQ_To f = Some t" "parseDate l t = Inr to" "Before to now" "Before to now'"
    then show "Service_SubscriptionsCost l repo now f db =
        Service_SubscriptionsCost l repo now' f db"
      by (rule Service_SubscriptionsCost_beyond_to)
  qed
  from 1 2 3 4 [of tot] 5 6 7 8 9 show ?thesis by blast
qed

text \<open>
  The open-ended subscription of the scenario queried from \<open>07-2025\<close> to \<open>09-2025\<close>: on
  30 October 2026 it is billed through September 2025, two months, as on 1 January
  2026; on 15 August 2025 through that day, one month; with no bound, on 1 January 2026,
  through that day, six months.
\<close>

theorem open_ended_billed_through_min_now_to_witness:
  "EndDate yandex = None \<and>
   Before (first_of_month 2025 9) autumn_2026 \<and> Before (first_of_month 2025 9) new_year_2026 \<and>
   actualEnd autumn_2026 yandex = autumn_2026 \<and>
   calcEnd autumn_2026 (Some (first_of_month 2025 9)) yandex = first_of_month 2025 9 \<and>
   regular (calcStart (Some (first_of_month 2025 7)) yandex) \<and>
   regular (minTime autumn_2026 (first_of_month 2025 9)) \<and>
   cost_step lib0 autumn_2026 (Some (first_of_month 2025 7)) (Some (first_of_month 2025 9))
     5 yandex = 805 \<and>
   regular (minTime mid_august (first_of_month 2025 9)) \<and>
   cost_step lib0 mid_august (Some (first_of_month 2025 7)) (Some (first_of_month 2025 9))
     5 yandex = 405 \<and>
   regular new_year_2026 \<and>
   cost_step lib0 new_year_2026 (Some (first_of_month 2025 7)) None 5 yandex = 2405 \<and>
   Service_SubscriptionsCost lib0 (SubscriptionRepository None None day0) autumn_2026
     cost_07_09 [yandex] = (Inr 800, [yandex]) \<and>
   Service_SubscriptionsCost lib0 (SubscriptionRepository None None day0) new_year_2026
     cost_07_09 [yandex] = (Inr 800, [yandex]) \<and>
   cost_step lib0 autumn_2026 (Some (first_of_month 2025 7)) (Some (first_of_month 2025 9))
     5 yandex =
   cost_step lib0 new_year_2026 (Some (first_of_month 2025 7)) (Some (first_of_month 2025 9))
     5 (yandex\<lparr>EndDate := Some (first_of_month 2025 9)\<rparr>)"
proof -
  have e: "EndDate yandex = None" by (simp add: yandex_def)
  have b: "Before (first_of_month 2025 9) autumn_2026"
    "Before (first_of_month 2025 9) new_year_2026"
    "\<not> Before (first_of_month 2025 9) mid_august"
    "\<not> Before mid_august (first_of_month 2025 7)"
    "\<not> Before (first_of_month 2025 9) (first_of_month 2025 7)"
    "\<not> Before new_year_2026 (first_of_month 2025 7)"
    by (simp_all add: Before_def autumn_2026_def new_year_2026_def mid_august_def
          first_of_month_def)
  have m: "minTime autumn_2026 (first_of_month 2025 9) = first_of_month 2025 9"
    "minTime new_year_2026 (first_of_month 2025 9) = first_of_month 2025 9"
    "minTime mid_august (first_of_month 2025 9) = mid_august"
    by (simp_all add: minTime_def Before_def autumn_2026_def new_year_2026_def mid_august_def
          first_of_month_def)
  have r: "regular new_year_2026"
    by (simp add: regular_def new_year_2026_def representable_year_def)
  have ym: "Year (first_of_month y k) = y" "Month (first_of_month y k) = k" for y k
    by (simp_all add: first_of_month_def)
  have v: "Year mid_august = 2025" "Month mid_august = 8" "Year new_year_2026 = 2026"
    "Month new_year_2026 = 1" "Price yandex = 400"
    by (simp_all add: mid_august_def new_year_2026_def yandex_def)
  have q: "CQ_UserID cost_07_09 = None" "CQ_To cost_07_09 = Some ''09-2025''"
    by (simp_all add: cost_07_09_def)
  note T = open_ended_billed_through_min_now_to [OF e, where l = lib0
      and startDate = "Some (first_of_month 2025 7)" and to = "first_of_month 2025 9"
      and endDate = None and tot = 5 and f = cost_07_09 and userID = None
      and repo = "SubscriptionRepository None None day0" and db = "[yandex]"
      and db' = "[yandex]" and t = "''09-2025''"]
  note A = T [where now = autumn_2026 and now' = new_year_2026]
  note B = T [where now = mid_august and now' = new_year_2026]
  note C = T [where now = new_year_2026 and now' = autumn_2026]
  from A have 1: "cost_step lib0 autumn_2026 (Some (first_of_month 2025 7))
      (Some (first_of_month 2025 9)) 5 yandex = 805"
    by (simp add: m b clip_examples regular_examples ym v)
  from B have 2: "cost_step lib0 mid_august (Some (first_of_month 2025 7))
      (Some (first_of_month 2025 9)) 5 yandex = 405"
    by (simp add: m b clip_examples regular_examples ym v)
  from C have 3: "cost_step lib0 new_year_2026 (Some (first_of_month 2025 7)) None 5 yandex = 2405"
    by (simp add: m b clip_examples regular_examples r ym v)
  from A have 4: "Service_SubscriptionsCost lib0 (SubscriptionRepository None None day0)
      autumn_2026 cost_07_09 [yandex] = (Inr 800, [yandex])"
    by (simp add: m b clip_examples regular_examples ym v fetch_examples q parse_07_2025
          parse_09_2025)
  from A b have 5: "Service_SubscriptionsCost lib0 (SubscriptionRepository None None day0)
      autumn_2026 cost_07_09 [yandex] =
    Service_SubscriptionsCost lib0 (SubscriptionRepository None None day0)
      new_year_2026 cost_07_09 [yandex]"
    by (simp add: q parse_09_2025)
  from A have 6: "cost_step lib0 autumn_2026 (Some (first_of_month 2025 7))
      (Some (first_of_month 2025 9)) 5 yandex =
    cost_step lib0 new_year_2026 (Some (first_of_month 2025 7)) (Some (first_of_month 2025 9))
      5 (yandex\<lparr>EndDate := Some (first_of_month 2025 9)\<rparr>)"
    by (simp add: m)
  from A have 7: "actualEnd autumn_2026 yandex = autumn_2026"
    "calcEnd autumn_2026 (Some (first_of_month 2025 9)) yandex = first_of_month 2025 9"
    by (simp_all add: m)
  from e b 1 2 3 4 5 6 7 r show ?thesis
    by (simp add: m clip_examples regular_examples)
qed

text \<open>
  C3. A candidate whose clipped interval has \<open>calcEnd\<close> before \<open>calcStart\<close> leaves the
  total as it is, the loop gives the same total with or without it, and the call
  succeeds with that total.
\<close>

theorem no_overlap_contributes_zero:
  assumes "Before (calcEnd now endDate sub) (calcStart startDate sub)"
  shows "cost_step l now startDate endDate tot sub = tot \<and>
         cost_loop l now startDate endDate (xs @ sub # ys) =
           cost_loop l now startDate endDate (xs @ ys) \<and>
         (rel_option (\<lambda>u x. uuid_Parse l u = Inr x) (CQ_UserID f) userID \<and>
          rel_option (\<lambda>s t. parseDate l s = Inr t) (CQ_From f) startDate \<and>
          rel_option (\<lambda>s t. parseDate l s = Inr t) (CQ_To f) endDate \<and>
          I_SubscriptionsCost repo \<lparr>C_UserID = userID, C_ServiceName = CQ_ServiceName f\<rparr> db =
            (Inr (xs @ sub # ys), db') \<longrightarrow>
          Service_SubscriptionsCost l repo now f db =
            (Inr (cost_loop l now startDate endDate (xs @ ys)), db'))"
proof -
  have 1: "cost_step l now startDate endDate tot sub = tot"
    using assms by (simp add: cost_step_def)
  have 2: "cost_loop l now startDate endDate (xs @ sub # ys) =
           cost_loop l now startDate endDate (xs @ ys)"
    using assms by (simp add: cost_loop_sum no_overlap_skipped)
  show ?thesis
    using Service_SubscriptionsCost_fetch
      [of l f userID startDate endDate repo db "xs @ sub # ys" db' now] 1 2
    by simp
qed

text \<open>
  A subscription that ended in August 2025, queried for September 2025.
\<close>

theorem no_overlap_contributes_zero_witness:
  "Before (calcEnd autumn_2026 (Some (first_of_month 2025 9)) ended) (calcStart (Some (first_of_month 2025 9)) ended) \<and>
   cost_step lib0 autumn_2026 (Some (first_of_month 2025 9)) (Some (first_of_month 2025 9)) 5 ended = 5 \<and>
   I_SubscriptionsCost (SubscriptionRepository None None day0)
      \<lparr>C_UserID = None, C_ServiceName = None\<rparr> [yandex, ended] =
      (Inr ([yandex] @ ended # []), [yandex, ended]) \<and>
   Service_SubscriptionsCost lib0 (SubscriptionRepository None None day0) autumn_2026
      \<lparr>CQ_UserID = None, CQ_ServiceName = None,
       CQ_From = Some ''09-2025'', CQ_To = Some ''09-2025''\<rparr> [yandex, ended] =
      (Inr (cost_loop lib0 autumn_2026 (Some (first_of_month 2025 9)) (Some (first_of_month 2025 9)) [yandex]),
       [yandex, ended]) \<and>
   cost_loop lib0 autumn_2026 (Some (first_of_month 2025 9)) (Some (first_of_month 2025 9)) [yandex] = 0"
proof -
  have b: "Before (calcEnd autumn_2026 (Some (first_of_month 2025 9)) ended)
      (calcStart (Some (first_of_month 2025 9)) ended)"
    unfolding clip_examples by (simp add: Before_def first_of_month_def)
  have r: "I_SubscriptionsCost (SubscriptionRepository None None day0)
      \<lparr>C_UserID = None, C_ServiceName = None\<rparr> [yandex, ended] =
      (Inr ([yandex] @ ended # []), [yandex, ended])"
    by (simp add: SubscriptionRepository_def Repository_SubscriptionsCost_def whereClause_def)
  have z: "cost_loop lib0 autumn_2026 (Some (first_of_month 2025 9)) (Some (first_of_month 2025 9)) [yandex] = 0"
    by (simp add: cost_loop_sum cost_step_contribution clip_examples regular_examples
          contribution_def Before_irrefl)
  show ?thesis
    using no_overlap_contributes_zero [OF b, where l = lib0 and tot = 5 and xs = "[yandex]"
        and ys = "[]" and userID = None and repo = "SubscriptionRepository None None day0"
        and db = "[yandex, ended]" and db' = "[yandex, ended]"
        and f = "\<lparr>CQ_UserID = None, CQ_ServiceName = None,
          CQ_From = Some ''09-2025'', CQ_To = Some ''09-2025''\<rparr>"] b r z
    by (simp add: parse_09_2025)
qed

text \<open>
  C10. When every candidate has a recorded end month the total does not depend on the
  evaluation instant: the loop gives the same sum at two instants, and so does the
  service when every candidate set the repository can return from this storage holds
  ended subscriptions only.
\<close>

theorem cost_of_ended_subscriptions_ignores_now:
  "((\<forall>sub\<in>set subs. EndDate sub \<noteq> None) \<longrightarrow>
      cost_loop l now startDate endDate subs = cost_loop l now' startDate endDate subs) \<and>
   ((\<forall>q subs db'. I_SubscriptionsCost repo q db = (Inr subs, db') \<longrightarrow>
        (\<forall>sub\<in>set subs. EndDate sub \<noteq> None)) \<longrightarrow>
      Service_SubscriptionsCost l repo now f db = Service_SubscriptionsCost l repo now' f db)"
proof -
  have 1: "(\<forall>sub\<in>set subs. EndDate sub \<noteq> None) \<longrightarrow>
      cost_loop l now startDate endDate subs = cost_loop l now' startDate endDate subs"
    using cost_loop_now_independent by blast
  have 2: "Service_SubscriptionsCost l repo now f db = Service_SubscriptionsCost l repo now' f db"
    if h: "\<forall>q subs db'. I_SubscriptionsCost repo q db = (Inr subs, db') \<longrightarrow>
        (\<forall>sub\<in>set subs. EndDate sub \<noteq> None)"
  proof -
    have "(case I_SubscriptionsCost repo q db of
             (Inl err, db') \<Rightarrow> (Inl (Errorf ''error getting subscriptions cost: %w'' err []), db')
           | (Inr subs, db') \<Rightarrow> (Inr (cost_loop l now sd ed subs), db')) =
          (case I_SubscriptionsCost repo q db of
             (Inl err, db') \<Rightarrow> (Inl (Errorf ''error getting subscriptions cost: %w'' err []), db')
           | (Inr subs, db') \<Rightarrow> (Inr (cost_loop l now' sd ed subs), db'))" for q sd ed
    proof (cases "I_SubscriptionsCost repo q db")
      case (Pair res db')
      show ?thesis
      proof (cases res)
        case (Inl err)
        with Pair show ?thesis by simp
      next
        case (Inr subs)
        with Pair h have "\<forall>sub\<in>set subs. EndDate sub \<noteq> None" by blast
        then have "cost_loop l now sd ed subs = cost_loop l now' sd ed subs"
          by (rule cost_loop_now_independent)
        with Pair Inr show ?thesis by simp
      qed
    qed
    then show ?thesis
      by (simp add: Service_SubscriptionsCost_def split: option.splits sum.splits)
  qed
  from 1 2 show ?thesis by blast
qed

text \<open>
  One ended subscription, evaluated on 15 August 2025 and on 30 October 2026.
\<close>

theorem cost_of_ended_subscriptions_ignores_now_witness:
  "EndDate ended \<noteq> None \<and>
   cost_loop lib0 mid_august (Some (first_of_month 2025 7)) None [ended] =
     cost_loop lib0 autumn_2026 (Some (first_of_month 2025 7)) None [ended] \<and>
   Service_SubscriptionsCost lib0 (SubscriptionRepository None None day0) mid_august cost_07_09
     [ended] =
   Service_SubscriptionsCost lib0 (SubscriptionRepository None None day0) autumn_2026 cost_07_09 [ended] \<and>
   Service_SubscriptionsCost lib0 (SubscriptionRepository None None day0) autumn_2026 cost_07_09 [ended] =
     (Inr 599, [ended])"
proof -
  have e: "EndDate ended \<noteq> None" by (simp add: ended_def)
  then have a: "\<forall>sub\<in>set [ended]. EndDate sub \<noteq> None" by simp
  have b: "\<forall>q subs db'.
       I_SubscriptionsCost (SubscriptionRepository None None day0) q [ended] = (Inr subs, db') \<longrightarrow>
       (\<forall>sub\<in>set subs. EndDate sub \<noteq> None)"
    by (auto simp add: SubscriptionRepository_def Repository_SubscriptionsCost_def ended_def
          split: if_splits)
  have c: "Service_SubscriptionsCost lib0 (SubscriptionRepository None None day0) autumn_2026 cost_07_09
      [ended] = (Inr 599, [ended])"
  proof -
    have "Service_SubscriptionsCost lib0 (SubscriptionRepository None None day0) autumn_2026
        cost_07_09 [ended] =
      (Inr (cost_loop lib0 autumn_2026 (Some (first_of_month 2025 7))
              (Some (first_of_month 2025 9)) [ended]), [ended])"
      by (rule Service_SubscriptionsCost_fetch [where userID = None])
        (simp_all add: fetch_examples cost_07_09_def parse_07_2025 parse_09_2025)
    moreover have "cost_loop lib0 autumn_2026 (Some (first_of_month 2025 7))
        (Some (first_of_month 2025 9)) [ended] = contribution autumn_2026
          (Some (first_of_month 2025 7)) (Some (first_of_month 2025 9)) ended"
      by (simp add: cost_loop_sum cost_step_contribution clip_examples regular_examples)
    moreover have "contribution autumn_2026 (Some (first_of_month 2025 7))
        (Some (first_of_month 2025 9)) ended = 599"
      unfolding contribution_def clip_examples Let_def
      by (simp add: Before_def first_of_month_def ended_def)
    ultimately show ?thesis by simp
  qed
  note A = cost_of_ended_subscriptions_ignores_now [where l = lib0 and subs = "[ended]"
        and now = mid_august and now' = autumn_2026 and startDate = "Some (first_of_month 2025 7)"
        and endDate = None and repo = "SubscriptionRepository None None day0" and db = "[ended]"
        and f = cost_07_09]
  from A a have 1: "cost_loop lib0 mid_august (Some (first_of_month 2025 7)) None [ended] =
     cost_loop lib0 autumn_2026 (Some (first_of_month 2025 7)) None [ended]"
    by blast
  from A b have 2: "Service_SubscriptionsCost lib0 (SubscriptionRepository None None day0)
      mid_august cost_07_09 [ended] =
    Service_SubscriptionsCost lib0 (SubscriptionRepository None None day0) autumn_2026 cost_07_09 [ended]"
    by blast
  from e 1 2 c show ?thesis by blast
qed

section \<open>Create, update, delete and list\<close>

lemma parseDate_accepted_representable:
  assumes "accepted_date s" "representable_year (segment_value (year_segment s))"
  shows "parseDate l s =
     Inr (first_of_month (segment_value (year_segment s)) (segment_value (month_segment s)))"
proof -
  from assms(1) have c: "count_list s (CHR ''-'') = 1"
    and m: "1 \<le> sint (segment_value (month_segment s))"
      "sint (segment_value (month_segment s)) \<le> 12"
    by (simp_all add: accepted_date_def)
  show ?thesis
    unfolding parseDate_two_segments [OF c] using assms(1)
    by (simp add: time_Date_exact [OF assms(2) m])
qed

lemma Before_first_of_month_iff:
  "Before (first_of_month y m) (first_of_month y' m') \<longleftrightarrow>
     sint y < sint y' \<or> (y = y' \<and> sint m < sint m')"
  by (simp add: Before_def first_of_month_def)

lemma Service_CreateSubscription_storage:
  assumes h: "snd (Service_CreateSubscription l repo sid req db) \<noteq> db"
  shows "\<exists>sub. snd (Service_CreateSubscription l repo sid req db) =
               snd (I_CreateSubscription repo sub db) \<and>
             parseDate l (CR_StartDate req) = Inr (StartDate sub) \<and>
             (case EndDate sub of
                None \<Rightarrow> CR_EndDate req = None
              | Some ed \<Rightarrow> (\<exists>e. CR_EndDate req = Some e \<and> parseDate l e = Inr ed) \<and>
                           \<not> Before ed (StartDate sub)) \<and>
             uuid_Parse l (CR_UserID req) = Inr (UserID sub)"
proof -
  define endRes where "endRes sd =
      (case CR_EndDate req of
         None \<Rightarrow> Inr None
       | Some e \<Rightarrow>
           (case parseDate l e of
              Inl err \<Rightarrow> Inl (Errorf ''%w: %s'' err [e])
            | Inr ed \<Rightarrow>
                if Before ed sd then Inl (ErrEndBeforeStart ed sd) else Inr (Some ed)))" for sd
  from h obtain sd where sd: "parseDate l (CR_StartDate req) = Inr sd"
    by (cases "parseDate l (CR_StartDate req)") (auto simp add: Service_CreateSubscription_def)
  from h sd obtain endDate where ed: "endRes sd = Inr endDate"
    by (cases "endRes sd") (auto simp add: Service_CreateSubscription_def endRes_def)
  from h sd ed obtain userID where u: "uuid_Parse l (CR_UserID req) = Inr userID"
    by (cases "uuid_Parse l (CR_UserID req)")
      (auto simp add: Service_CreateSubscription_def endRes_def)
  let ?sub = "\<lparr>ID = sid, ServiceName = CR_ServiceName req, Price = CR_Price req,
      UserID = userID, StartDate = sd, EndDate = endDate,
      CreatedAt = zero_Time, UpdatedAt = zero_Time\<rparr>"
  have 1: "snd (Service_CreateSubscription l repo sid req db) =
      snd (I_CreateSubscription repo ?sub db)"
    using sd ed u unfolding Service_CreateSubscription_def endRes_def
    by (cases "I_CreateSubscription repo ?sub db") (auto split: sum.splits)
  have 2: "case endDate of
       None \<Rightarrow> CR_EndDate req = None
     | Some ed \<Rightarrow> (\<exists>e. CR_EndDate req = Some e \<and> parseDate l e = Inr ed) \<and> \<not> Before ed sd"
    using ed unfolding endRes_def
    by (auto split: option.splits sum.splits if_splits)
  from 1 2 sd u show ?thesis
    by (intro exI [of _ ?sub]) (auto split: option.splits)
qed

text \<open>
  C6. When the start month of a create request parses and its end month parses to a
  date before the start, \<open>CreateSubscription\<close> returns the error of the ordering check and
  the storage it was given, whatever the repository is: no method of the repository has
  run. The dates compared are the ones the parser returned: for two accepted months of
  representable years the request is rejected exactly when the end month comes before
  the start month in the calendar. All validation comes before the storage call:
  whenever the storage changes, it is what the repository's \<open>CreateSubscription\<close> made of
  it for a subscription whose start month parsed, whose end month is absent or parsed
  and is not before the start, and whose user identifier parsed.
\<close>

theorem create_end_before_start_rejected:
  "(parseDate l (CR_StartDate req) = Inr sd \<and> CR_EndDate req = Some e \<and>
    parseDate l e = Inr ed \<and> Before ed sd \<longrightarrow>
      Service_CreateSubscription l repo sid req db = (Inl (ErrEndBeforeStart ed sd), db)) \<and>
   (accepted_date (CR_StartDate req) \<and>
    representable_year (segment_value (year_segment (CR_StartDate req))) \<and>
    CR_EndDate req = Some e \<and> accepted_date e \<and>
    representable_year (segment_value (year_segment e)) \<and>
    (sint (segment_value (year_segment e)) <
       sint (segment_value (year_segment (CR_StartDate req))) \<or>
     segment_value (year_segment e) = segment_value (year_segment (CR_StartDate req)) \<and>
     sint (segment_value (month_segment e)) <
       sint (segment_value (month_segment (CR_StartDate req)))) \<longrightarrow>
      Service_CreateSubscription l repo sid req db =
        (Inl (ErrEndBeforeStart
                (first_of_month (segment_value (year_segment e))
                   (segment_value (month_segment e)))
                (first_of_month (segment_value (year_segment (CR_StartDate req)))
                   (segment_value (month_segment (CR_StartDate req))))), db)) \<and>
   (snd (Service_CreateSubscription l repo sid req db) \<noteq> db \<longrightarrow>
      (\<exists>sub. snd (Service_CreateSubscription l repo sid req db) =
               snd (I_CreateSubscription repo sub db) \<and>
             parseDate l (CR_StartDate req) = Inr (StartDate sub) \<and>
             (case EndDate sub of
                None \<Rightarrow> CR_EndDate req = None
              | Some ed \<Rightarrow> (\<exists>e. CR_EndDate req = Some e \<and> parseDate l e = Inr ed) \<and>
                           \<not> Before ed (StartDate sub)) \<and>
             uuid_Parse l (CR_UserID req) = Inr (UserID sub)))"
proof -
  have 1: "Service_CreateSubscription l repo sid req db = (Inl (ErrEndBeforeStart ed sd), db)"
    if "parseDate l (CR_StartDate req) = Inr sd \<and> CR_EndDate req = Some e \<and>
        parseDate l e = Inr ed \<and> Before ed sd"
    using that by (simp add: Service_CreateSubscription_def)
  have 2: "\<exists>sub. snd (Service_CreateSubscription l repo sid req db) =
               snd (I_CreateSubscription repo sub db) \<and>
             parseDate l (CR_StartDate req) = Inr (StartDate sub) \<and>
             (case EndDate sub of
                None \<Rightarrow> CR_EndDate req = None
              | Some ed \<Rightarrow> (\<exists>e. CR_EndDate req = Some e \<and> parseDate l e = Inr ed) \<and>
                           \<not> Before ed (StartDate sub)) \<and>
             uuid_Parse l (CR_UserID req) = Inr (UserID sub)"
    if h: "snd (Service_CreateSubscription l repo sid req db) \<noteq> db"
    using h by (rule Service_CreateSubscription_storage)
  have 3: "Service_CreateSubscription l repo sid req db =
        (Inl (ErrEndBeforeStart
                (first_of_month (segment_value (year_segment e))
                   (segment_value (month_segment e)))
                (first_of_month (segment_value (year_segment (CR_StartDate req)))
                   (segment_value (month_segment (CR_StartDate req))))), db)"
    if "accepted_date (CR_StartDate req)"
      and "representable_year (segment_value (year_segment (CR_StartDate req)))"
      and "CR_EndDate req = Some e" and "accepted_date e"
      and "representable_year (segment_value (year_segment e))"
      and "sint (segment_value (year_segment e)) <
             sint (segment_value (year_segment (CR_StartDate req))) \<or>
           segment_value (year_segment e) = segment_value (year_segment (CR_StartDate req)) \<and>
           sint (segment_value (month_segment e)) <
             sint (segment_value (month_segment (CR_StartDate req)))"
    using that(3,6)
    by (simp add: Service_CreateSubscription_def Before_first_of_month_iff
          parseDate_accepted_representable [OF that(1,2)]
          parseDate_accepted_representable [OF that(4,5)])
  from 1 2 3 show ?thesis by blast
qed

text \<open>
  With the repository that counts its \<open>CreateSubscription\<close> calls: none for a request
  from \<open>09-2025\<close> to \<open>07-2025\<close>, one for the request from \<open>07-2025\<close> to \<open>09-2025\<close>. A
  request from \<open>07-300000000000\<close> to \<open>01-2025\<close> is stored: the start the parser returns
  is the wrapped date, which is before January 2025.
\<close>

theorem create_end_before_start_rejected_witness:
  "parseDate lib0 ''09-2025'' = Inr (first_of_month 2025 9) \<and>
   parseDate lib0 ''07-2025'' = Inr (first_of_month 2025 7) \<and>
   Before (first_of_month 2025 7) (first_of_month 2025 9) \<and>
   accepted_date ''09-2025'' \<and> accepted_date ''07-2025'' \<and>
   representable_year (segment_value (year_segment ''09-2025'')) \<and>
   representable_year (segment_value (year_segment ''07-2025'')) \<and>
   segment_value (year_segment ''07-2025'') = segment_value (year_segment ''09-2025'') \<and>
   sint (segment_value (month_segment ''07-2025'')) <
     sint (segment_value (month_segment ''09-2025'')) \<and>
   Service_CreateSubscription lib0 counting_repo 7
     \<lparr>CR_ServiceName = ''Yandex Plus'', CR_Price = 400,
      CR_UserID = ''60601fee-2bf1-4721-ae6f-7636e79a0cba'',
      CR_StartDate = ''09-2025'', CR_EndDate = Some ''07-2025''\<rparr> 0 =
     (Inl (ErrEndBeforeStart (first_of_month 2025 7) (first_of_month 2025 9)), 0) \<and>
   snd (Service_CreateSubscription lib0 counting_repo 7
     \<lparr>CR_ServiceName = ''Yandex Plus'', CR_Price = 400,
      CR_UserID = ''60601fee-2bf1-4721-ae6f-7636e79a0cba'',
      CR_StartDate = ''07-2025'', CR_EndDate = Some ''09-2025''\<rparr> 0) = 1 \<and>
   parseDate lib0 ''07-300000000000'' = Inr wrapped_07_300000000000 \<and>
   parseDate lib0 ''01-2025'' = Inr (first_of_month 2025 1) \<and>
   \<not> Before (first_of_month 2025 1) wrapped_07_300000000000 \<and>
   snd (Service_CreateSubscription lib0 counting_repo 7
     \<lparr>CR_ServiceName = ''Yandex Plus'', CR_Price = 400,
      CR_UserID = ''60601fee-2bf1-4721-ae6f-7636e79a0cba'',
      CR_StartDate = ''07-300000000000'', CR_EndDate = Some ''01-2025''\<rparr> 0) = 1"
proof -
  let ?reversed = "\<lparr>CR_ServiceName = ''Yandex Plus'', CR_Price = 400,
      CR_UserID = ''60601fee-2bf1-4721-ae6f-7636e79a0cba'',
      CR_StartDate = ''09-2025'', CR_EndDate = Some ''07-2025''\<rparr>"
  let ?ordered = "\<lparr>CR_ServiceName = ''Yandex Plus'', CR_Price = 400,
      CR_UserID = ''60601fee-2bf1-4721-ae6f-7636e79a0cba'',
      CR_StartDate = ''07-2025'', CR_EndDate = Some ''09-2025''\<rparr>"
  let ?wrapped = "\<lparr>CR_ServiceName = ''Yandex Plus'', CR_Price = 400,
      CR_UserID = ''60601fee-2bf1-4721-ae6f-7636e79a0cba'',
      CR_StartDate = ''07-300000000000'', CR_EndDate = Some ''01-2025''\<rparr>"
  have b: "Before (first_of_month 2025 7) (first_of_month 2025 9)"
    "\<not> Before (first_of_month 2025 9) (first_of_month 2025 7)"
    "\<not> Before (first_of_month 2025 1) wrapped_07_300000000000"
    by (simp_all add: Before_def first_of_month_def wrapped_07_300000000000_def)
  have v: "valid_MM_YYYY ''07-2025''" "valid_MM_YYYY ''09-2025''"
    by (simp_all add: valid_MM_YYYY_def is_digit_def digit_val_def)
  have a: "accepted_date ''09-2025''" "accepted_date ''07-2025''"
    "representable_year (segment_value (year_segment ''09-2025''))"
    "representable_year (segment_value (year_segment ''07-2025''))"
    using valid_MM_YYYY_accepted [OF v(1)] valid_MM_YYYY_accepted [OF v(2)] by simp_all
  have y: "segment_value (year_segment ''07-2025'') = 2025"
    "segment_value (month_segment ''07-2025'') = 7"
    "segment_value (year_segment ''09-2025'') = 2025"
    "segment_value (month_segment ''09-2025'') = 9"
    by (simp_all add: segment_value_def year_segment_def month_segment_def strip_plus_def
          digit_val_def)
  have p: "parseDate lib0 ''07-300000000000'' = Inr wrapped_07_300000000000"
    "parseDate lib0 ''01-2025'' = Inr (first_of_month 2025 1)"
    by (simp_all add: parseDate_def Atoi_def is_digit_def digit_val_def time_Date_def
          representable_year_def lib0_def first_of_month_def)
  have u: "uuid_Parse lib0 ''60601fee-2bf1-4721-ae6f-7636e79a0cba'' = Inr 1"
    by (simp add: lib0_def)
  have c: "snd (Service_CreateSubscription lib0 counting_repo 7 ?ordered 0) = 1"
    by (simp add: Service_CreateSubscription_def parse_07_2025 parse_09_2025 u b
          counting_repo_def)
  have w: "snd (Service_CreateSubscription lib0 counting_repo 7 ?wrapped 0) = 1"
    by (simp add: Service_CreateSubscription_def p u b counting_repo_def)
  note A = create_end_before_start_rejected [where l = lib0 and repo = counting_repo
      and sid = 7 and db = 0 and req = ?reversed and sd = "first_of_month 2025 9"
      and e = "''07-2025''" and ed = "first_of_month 2025 7"]
  note B = create_end_before_start_rejected [where l = lib0 and repo = counting_repo
      and sid = 7 and db = 0 and req = ?ordered and sd = "first_of_month 2025 7"
      and e = "''09-2025''" and ed = "first_of_month 2025 9"]
  from A b have 1: "Service_CreateSubscription lib0 counting_repo 7 ?reversed 0 =
     (Inl (ErrEndBeforeStart (first_of_month 2025 7) (first_of_month 2025 9)), 0)"
    by (simp add: parse_07_2025 parse_09_2025)
  from A a have 2: "Service_CreateSubscription lib0 counting_repo 7 ?reversed 0 =
     (Inl (ErrEndBeforeStart
             (first_of_month (segment_value (year_segment ''07-2025''))
                (segment_value (month_segment ''07-2025'')))
             (first_of_month (segment_value (year_segment ''09-2025''))
                (segment_value (month_segment ''09-2025'')))), 0)"
    by (simp add: y)
  from c have n: "snd (Service_CreateSubscription lib0 counting_repo 7 ?ordered 0) \<noteq> 0"
    by simp
  from B n obtain sub where "snd (Service_CreateSubscription lib0 counting_repo 7 ?ordered 0) =
      snd (I_CreateSubscription counting_repo sub 0)"
    by blast
  with c have 3: "snd (I_CreateSubscription counting_repo sub 0) = 1"
    by simp
  from 1 2 3 b c w p a show ?thesis
    by (simp add: parse_07_2025 parse_09_2025 y)
qed

lemma update_set_empty:
  "length (update_set sub) = 0 \<longleftrightarrow>
   U_ServiceName sub = None \<and> U_Price sub = None \<and> U_StartDate sub = None \<and> U_EndDate sub = None"
  by (auto simp add: update_set_def split: option.splits)

lemma snd_Repository_SubscriptionByID: "snd (Repository_SubscriptionByID fault sid db) = db"
  by (simp add: Repository_SubscriptionByID_def split: option.splits sum.splits)

lemma ID_updated_row: "ID (updated_row stamp sub r) = ID r"
  by (simp add: updated_row_def)

lemma UpdatedAt_updated_row: "UpdatedAt (updated_row stamp sub r) = stamp"
  by (simp add: updated_row_def)

lemma find_updated:
  "find (\<lambda>r. ID r = sid) db = Some r \<Longrightarrow>
   find (\<lambda>r. ID r = sid) (map (\<lambda>x. if ID x = sid then updated_row stamp sub x else x) db) =
     Some (updated_row stamp sub r)"
  by (induction db) (auto simp add: ID_updated_row)

lemma Repository_UpdateSubscription_stamps:
  assumes "length (update_set sub) \<noteq> 0"
    and "Repository_UpdateSubscription fault stamp sid sub db = (Inr row, db')"
  shows "UpdatedAt row = stamp \<and> find (\<lambda>r. ID r = sid) db' = Some row"
  using assms
  by (auto simp add: Repository_UpdateSubscription_def UpdatedAt_updated_row find_updated
        split: option.splits if_splits)

lemma Service_UpdateSubscription_Inr:
  assumes "Service_UpdateSubscription l repo sid req db = (Inr out, db')"
  obtains sub row where "I_UpdateSubscription repo sid sub db = (Inr row, db')"
    and "out = subscriptionToDto l row"
    and "U_ServiceName sub = UR_ServiceName req" and "U_Price sub = UR_Price req"
    and "U_StartDate sub = None \<longleftrightarrow> UR_StartDate req = None"
    and "U_EndDate sub = None \<longleftrightarrow> UR_EndDate req = None"
  using assms unfolding Service_UpdateSubscription_def
  by (fastforce split: option.splits sum.splits prod.splits if_splits)

lemma Service_UpdateSubscription_empty:
  assumes "UR_ServiceName req = None" "UR_Price req = None"
    "UR_StartDate req = None" "UR_EndDate req = None"
  shows "Service_UpdateSubscription l (SubscriptionRepository fault fault2 stamp) sid req db =
     (case Repository_SubscriptionByID fault sid db of
        (Inl err, db') \<Rightarrow>
          if errors_Is err ErrNotFound
          then (Inl (Errorf ''subscription not found: %w'' ErrNotFound []), db')
          else (Inl (Errorf ''failed to update subscription: %w'' err []), db')
      | (Inr subscriptionDB, db') \<Rightarrow> (Inr (subscriptionToDto l subscriptionDB), db'))"
  using assms
  by (simp add: Service_UpdateSubscription_def SubscriptionRepository_def
        Repository_UpdateSubscription_def update_set_def)

text \<open>
  C7. An update request with no field leaves the table as it is (every row, with its
  \<open>updated_at\<close>) and, when the statement runs, returns the row stored under the
  identifier, or the not-found error when there is none. So a call that changes the
  table supplied a field. When a field is supplied and the call succeeds, the row stored
  under the identifier is the one returned and its \<open>updated_at\<close> is the \<open>time.Now()\<close>
  of the call.
\<close>

theorem empty_update_is_pure_read:
  "(UR_ServiceName req = None \<and> UR_Price req = None \<and>
    UR_StartDate req = None \<and> UR_EndDate req = None \<longrightarrow>
      snd (Service_UpdateSubscription l (SubscriptionRepository fault fault2 stamp) sid req db) = db \<and>
      Service_UpdateSubscription l (SubscriptionRepository None fault2 stamp) sid req db =
        (case find (\<lambda>r. ID r = sid) db of
           Some r \<Rightarrow> Inr (subscriptionToDto l r)
         | None \<Rightarrow> Inl (Errorf ''subscription not found: %w'' ErrNotFound []), db)) \<and>
   (snd (Service_UpdateSubscription l (SubscriptionRepository fault fault2 stamp) sid req db) \<noteq> db
      \<longrightarrow> \<not> (UR_ServiceName req = None \<and> UR_Price req = None \<and>
             UR_StartDate req = None \<and> UR_EndDate req = None)) \<and>
   (\<not> (UR_ServiceName req = None \<and> UR_Price req = None \<and>
        UR_StartDate req = None \<and> UR_EndDate req = None) \<and>
    Service_UpdateSubscription l (SubscriptionRepository fault fault2 stamp) sid req db =
      (Inr out, db') \<longrightarrow>
      O_UpdatedAt out = Format_DateTime l stamp \<and>
      (\<exists>row. find (\<lambda>r. ID r = sid) db' = Some row \<and> UpdatedAt row = stamp \<and>
             out = subscriptionToDto l row))"
proof -
  have 1: "snd (Service_UpdateSubscription l (SubscriptionRepository fault fault2 stamp) sid req db)
      = db"
    if "UR_ServiceName req = None \<and> UR_Price req = None \<and>
        UR_StartDate req = None \<and> UR_EndDate req = None" for fault
    using that snd_Repository_SubscriptionByID [of fault sid db]
    by (cases "Repository_SubscriptionByID fault sid db")
      (auto simp add: Service_UpdateSubscription_empty split: sum.splits)
  have 2: "Service_UpdateSubscription l (SubscriptionRepository None fault2 stamp) sid req db =
        (case find (\<lambda>r. ID r = sid) db of
           Some r \<Rightarrow> Inr (subscriptionToDto l r)
         | None \<Rightarrow> Inl (Errorf ''subscription not found: %w'' ErrNotFound []), db)"
    if "UR_ServiceName req = None \<and> UR_Price req = None \<and>
        UR_StartDate req = None \<and> UR_EndDate req = None"
    using that
    by (simp add: Service_UpdateSubscription_empty Repository_SubscriptionByID_def
          split: option.splits)
  have 3: "O_UpdatedAt out = Format_DateTime l stamp \<and>
      (\<exists>row. find (\<lambda>r. ID r = sid) db' = Some row \<and> UpdatedAt row = stamp \<and>
             out = subscriptionToDto l row)"
    if n: "\<not> (UR_ServiceName req = None \<and> UR_Price req = None \<and>
        UR_StartDate req = None \<and> UR_EndDate req = None)"
      and s: "Service_UpdateSubscription l (SubscriptionRepository fault fault2 stamp) sid req db =
        (Inr out, db')"
  proof -
    from s obtain sub row
      where r': "I_UpdateSubscription (SubscriptionRepository fault fault2 stamp) sid sub db =
          (Inr row, db')"
        and o: "out = subscriptionToDto l row"
        and f: "U_ServiceName sub = UR_ServiceName req" "U_Price sub = UR_Price req"
          "U_StartDate sub = None \<longleftrightarrow> UR_StartDate req = None"
          "U_EndDate sub = None \<longleftrightarrow> UR_EndDate req = None"
      by (rule Service_UpdateSubscription_Inr)
    from r' have r: "Repository_UpdateSubscription fault stamp sid sub db = (Inr row, db')"
      by (simp add: SubscriptionRepository_def)
    from n f have "length (update_set sub) \<noteq> 0"
      unfolding update_set_empty by simp
    from Repository_UpdateSubscription_stamps [OF this r] o show ?thesis
      by (auto simp add: subscriptionToDto_def)
  qed
  from 1 [of fault] 2 3 show ?thesis by blast
qed

text \<open>
  The subscription of the scenario, updated with no field and with a new price.
\<close>

theorem empty_update_is_pure_read_witness:
  "UR_ServiceName no_fields = None \<and> UR_Price no_fields = None \<and>
   UR_StartDate no_fields = None \<and> UR_EndDate no_fields = None \<and>
   Service_UpdateSubscription lib0 (SubscriptionRepository None None autumn_2026) 7 no_fields [yandex] =
     (Inr (subscriptionToDto lib0 yandex), [yandex]) \<and>
   UR_Price new_price \<noteq> None \<and>
   Service_UpdateSubscription lib0 (SubscriptionRepository None None autumn_2026) 7 new_price [yandex] =
     (Inr (subscriptionToDto lib0 (yandex\<lparr>Price := 450, UpdatedAt := autumn_2026\<rparr>)),
      [yandex\<lparr>Price := 450, UpdatedAt := autumn_2026\<rparr>]) \<and>
   snd (Service_UpdateSubscription lib0 (SubscriptionRepository None None autumn_2026) 7 new_price
          [yandex]) \<noteq> [yandex] \<and>
   find (\<lambda>r. ID r = 7) [yandex\<lparr>Price := 450, UpdatedAt := autumn_2026\<rparr>] =
     Some (yandex\<lparr>Price := 450, UpdatedAt := autumn_2026\<rparr>) \<and>
   UpdatedAt (yandex\<lparr>Price := 450, UpdatedAt := autumn_2026\<rparr>) = autumn_2026"
proof -
  have n: "UR_ServiceName no_fields = None \<and> UR_Price no_fields = None \<and>
      UR_StartDate no_fields = None \<and> UR_EndDate no_fields = None"
    by (simp add: no_fields_def)
  have p: "Service_UpdateSubscription lib0 (SubscriptionRepository None None autumn_2026) 7 new_price
      [yandex] =
     (Inr (subscriptionToDto lib0 (yandex\<lparr>Price := 450, UpdatedAt := autumn_2026\<rparr>)),
      [yandex\<lparr>Price := 450, UpdatedAt := autumn_2026\<rparr>])"
    by (simp add: Service_UpdateSubscription_def new_price_def SubscriptionRepository_def
          Repository_UpdateSubscription_def update_set_def updated_row_def table_checks_def
          yandex_def)
  have d: "[yandex\<lparr>Price := 450, UpdatedAt := autumn_2026\<rparr>] \<noteq> [yandex]"
    by (simp add: yandex_def)
  have i: "ID yandex = 7" by (simp add: yandex_def)
  note A = empty_update_is_pure_read [of no_fields lib0 None None autumn_2026 7 "[yandex]"]
  note B = empty_update_is_pure_read [of new_price lib0 None None autumn_2026 7 "[yandex]"
      "subscriptionToDto lib0 (yandex\<lparr>Price := 450, UpdatedAt := autumn_2026\<rparr>)"
      "[yandex\<lparr>Price := 450, UpdatedAt := autumn_2026\<rparr>]"]
  from A n i have 1: "Service_UpdateSubscription lib0 (SubscriptionRepository None None autumn_2026) 7
      no_fields [yandex] = (Inr (subscriptionToDto lib0 yandex), [yandex])"
    by simp
  from B p have 2: "UR_Price new_price \<noteq> None"
    by (simp add: new_price_def)
  from n 1 2 p d i show ?thesis by simp
qed

lemma filter_no_match:
  "find (\<lambda>r. ID r = sid) db = None \<Longrightarrow>
   filter (\<lambda>r. ID r = sid) db = [] \<and> filter (\<lambda>r. ID r \<noteq> sid) db = db"
  by (induction db) (auto split: if_splits)

text \<open>
  C9. Deleting an identifier no row has: the statement removes no row, the repository
  returns \<open>ErrNotFound\<close> for it, and the service returns an error that is
  \<open>ErrNotFound\<close> for \<open>errors.Is\<close>; the table is unchanged. Whatever the driver does,
  the service does not return nil for such an identifier. The service turns every
  repository error that is \<open>ErrNotFound\<close> into its own not-found error.
\<close>

theorem delete_missing_is_NotFound:
  assumes "find (\<lambda>r. ID r = sid) db = None"
  shows "Repository_DeleteSubscription None sid db = (Some ErrNotFound, db) \<and>
         Service_DeleteSubscription (SubscriptionRepository None fault2 stamp) sid db =
           (Some (Errorf ''subscription not found: %w'' ErrNotFound []), db) \<and>
         errors_Is (Errorf ''subscription not found: %w'' ErrNotFound []) ErrNotFound \<and>
         fst (Service_DeleteSubscription (SubscriptionRepository fault fault2 stamp) sid db) \<noteq> None \<and>
         (I_DeleteSubscription repo sid st = (Some err, st') \<and> errors_Is err ErrNotFound \<longrightarrow>
            Service_DeleteSubscription repo sid st =
              (Some (Errorf ''subscription not found: %w'' ErrNotFound []), st'))"
proof -
  have 1: "Repository_DeleteSubscription None sid db = (Some ErrNotFound, db)"
    using filter_no_match [OF assms] by (simp add: Repository_DeleteSubscription_def)
  then have 2: "Service_DeleteSubscription (SubscriptionRepository None fault2 stamp) sid db =
           (Some (Errorf ''subscription not found: %w'' ErrNotFound []), db)"
    by (simp add: Service_DeleteSubscription_def SubscriptionRepository_def)
  have 3: "fst (Service_DeleteSubscription (SubscriptionRepository fault fault2 stamp) sid db)
      \<noteq> None"
  proof (cases fault)
    case None
    with 2 show ?thesis by simp
  next
    case (Some e)
    then show ?thesis
      by (simp add: Service_DeleteSubscription_def SubscriptionRepository_def
            Repository_DeleteSubscription_def)
  qed
  have 4: "I_DeleteSubscription repo sid st = (Some err, st') \<and> errors_Is err ErrNotFound \<longrightarrow>
            Service_DeleteSubscription repo sid st =
              (Some (Errorf ''subscription not found: %w'' ErrNotFound []), st')"
    by (simp add: Service_DeleteSubscription_def)
  from 1 2 3 4 show ?thesis by simp
qed

text \<open>
  Identifier 9 is not in the table of the two example rows; identifier 8 is, and its
  deletion returns nil.
\<close>

theorem delete_missing_is_NotFound_witness:
  "find (\<lambda>r. ID r = 9) [yandex, ended] = None \<and>
   Repository_DeleteSubscription None 9 [yandex, ended] = (Some ErrNotFound, [yandex, ended]) \<and>
   Service_DeleteSubscription (SubscriptionRepository None None autumn_2026) 9 [yandex, ended] =
     (Some (Errorf ''subscription not found: %w'' ErrNotFound []), [yandex, ended]) \<and>
   I_DeleteSubscription counting_repo 9 0 = (Some ErrNotFound, 0) \<and>
   errors_Is ErrNotFound ErrNotFound \<and>
   Service_DeleteSubscription counting_repo 9 0 =
     (Some (Errorf ''subscription not found: %w'' ErrNotFound []), 0) \<and>
   Service_DeleteSubscription (SubscriptionRepository None None autumn_2026) 8 [yandex, ended] =
     (None, [yandex])"
proof -
  have f: "find (\<lambda>r. ID r = 9) [yandex, ended] = None"
    by (simp add: yandex_def ended_def)
  have c: "I_DeleteSubscription counting_repo 9 0 = (Some ErrNotFound, 0)"
    by (simp add: counting_repo_def)
  have d: "Service_DeleteSubscription (SubscriptionRepository None None autumn_2026) 8 [yandex, ended] =
     (None, [yandex])"
    by (simp add: Service_DeleteSubscription_def SubscriptionRepository_def
          Repository_DeleteSubscription_def yandex_def ended_def)
  show ?thesis
    using delete_missing_is_NotFound [OF f, of None autumn_2026 None counting_repo 0 ErrNotFound 0] f c d
    by simp
qed

lemma sint_mult_in_range:
  assumes "- (2 ^ 63) \<le> sint a * sint b" "sint a * sint b < 2 ^ 63"
  shows "sint (a * b :: go_int) = sint a * sint b"
  using assms by (simp add: sint_word_ariths signed_take_bit_int_eq_self)

text \<open>
  \<open>MakeSubscriptionsOutput\<close> computes \<open>has_next_page\<close> with Go's product of the page and
  the page size, on 64-bit integers. Where the product of the two numbers fits 64 bits,
  it is the product of the numbers; so it is for total 42, page 5 and page size 10.
\<close>

lemma MakeSubscriptionsOutput_flags:
  "SO_HasNextPage (MakeSubscriptionsOutput subscriptions tot page pageSize) =
     (sint tot > sint (page * pageSize))"
  "SO_HasPrevPage (MakeSubscriptionsOutput subscriptions tot page pageSize) = (sint page > 1)"
  "SO_Total (MakeSubscriptionsOutput subscriptions tot page pageSize) = tot"
  by (simp_all add: MakeSubscriptionsOutput_def)

lemma has_next_page_within_64_bits:
  assumes "- (2 ^ 63) \<le> sint page * sint pageSize" "sint page * sint pageSize < 2 ^ 63"
  shows "SO_HasNextPage (MakeSubscriptionsOutput subscriptions tot page pageSize) =
     (sint tot > sint page * sint pageSize)"
  using assms by (simp add: MakeSubscriptionsOutput_flags sint_mult_in_range)

lemma pagination_42_5_10:
  "SO_HasNextPage (MakeSubscriptionsOutput subscriptions 42 5 10) = False"
  "SO_HasPrevPage (MakeSubscriptionsOutput subscriptions 42 5 10) = True"
  by (simp_all add: MakeSubscriptionsOutput_def)

lemma listSubscriptions_clamps_pass:
  assumes "1 \<le> sint (SF_Page fltr)" "1 \<le> sint (SF_PageSize fltr)" "sint (SF_PageSize fltr) \<le> 100"
  shows "listSubscriptions l repo fltr db = Service_Subscriptions l repo fltr db"
  using assms by (simp add: listSubscriptions_def)

text \<open>
  C8. The metadata is not \<open>has_next_page = (total > page * pageSize)\<close> for every list
  request: the handler bounds the page size by 100 and leaves the page unbounded above,
  and the product wraps around 64 bits. The request \<open>page=4611686018427387904\<close>,
  \<open>page_size=2\<close> passes the clamps of \<open>listSubscriptions\<close> unchanged; the product of
  the two numbers is \<open>2 ^ 63\<close>, Go's is \<open>- 2 ^ 63\<close>. On an empty table the response
  has total 0 and \<open>has_next_page = true\<close>, where \<open>0 > 2 ^ 63\<close> is false; on the
  two example rows it has total 2, no row, and \<open>has_next_page = true\<close> as well.
  \<open>has_prev_page\<close> is \<open>page > 1\<close>, true.
\<close>

theorem pagination_product_wraps:
  "sint (4611686018427387904 :: go_int) = 4611686018427387904 \<and>
   1 \<le> sint (4611686018427387904 :: go_int) \<and>
   1 \<le> sint (2 :: go_int) \<and> sint (2 :: go_int) \<le> 100 \<and>
   sint (4611686018427387904 * 2 :: go_int) = - 9223372036854775808 \<and>
   \<not> ((0 :: int) > 4611686018427387904 * 2) \<and>
   listSubscriptions lib0 (SubscriptionRepository None None autumn_2026)
      \<lparr>SF_UserID = None, SF_ServiceName = None,
       SF_Page = 4611686018427387904, SF_PageSize = 2\<rparr> [] =
     (Inr \<lparr>SO_Total = 0, SO_Page = 4611686018427387904, SO_PageSize = 2,
           SO_HasNextPage = True, SO_HasPrevPage = True, SO_Subscriptions = []\<rparr>, []) \<and>
   \<not> ((2 :: int) > 4611686018427387904 * 2) \<and>
   listSubscriptions lib0 (SubscriptionRepository None None autumn_2026)
      \<lparr>SF_UserID = None, SF_ServiceName = None,
       SF_Page = 4611686018427387904, SF_PageSize = 2\<rparr> [yandex, ended] =
     (Inr \<lparr>SO_Total = 2, SO_Page = 4611686018427387904, SO_PageSize = 2,
           SO_HasNextPage = True, SO_HasPrevPage = True, SO_Subscriptions = []\<rparr>,
      [yandex, ended])"
proof -
  have s: "sint (4611686018427387904 :: go_int) = 4611686018427387904"
    "sint (4611686018427387904 * 2 :: go_int) = - 9223372036854775808"
    "sint ((4611686018427387904 - 1) * 2 :: go_int) = 9223372036854775806"
    by simp_all
  have e: "listSubscriptions lib0 (SubscriptionRepository None None autumn_2026)
      \<lparr>SF_UserID = None, SF_ServiceName = None,
       SF_Page = 4611686018427387904, SF_PageSize = 2\<rparr> [] =
     (Inr \<lparr>SO_Total = 0, SO_Page = 4611686018427387904, SO_PageSize = 2,
           SO_HasNextPage = True, SO_HasPrevPage = True, SO_Subscriptions = []\<rparr>, [])"
    by (simp add: listSubscriptions_def Service_Subscriptions_def SubscriptionRepository_def
          Repository_Subscriptions_def MakeSubscriptionsOutput_def Let_def)
  have t: "listSubscriptions lib0 (SubscriptionRepository None None autumn_2026)
      \<lparr>SF_UserID = None, SF_ServiceName = None,
       SF_Page = 4611686018427387904, SF_PageSize = 2\<rparr> [yandex, ended] =
     (Inr \<lparr>SO_Total = 2, SO_Page = 4611686018427387904, SO_PageSize = 2,
           SO_HasNextPage = True, SO_HasPrevPage = True, SO_Subscriptions = []\<rparr>,
      [yandex, ended])"
    using s(3)
    by (simp add: listSubscriptions_def Service_Subscriptions_def SubscriptionRepository_def
          Repository_Subscriptions_def whereClause_def MakeSubscriptionsOutput_def Let_def)
  from s e t show ?thesis by simp
qed

end
